theory Spec2Isabelle
  imports Complex_Main "HOL-Library.Multiset" "HOL-Library.Word"
begin

section \<open>FleetLogix ETL: load module (FA\_load.py)\<close>

subsection \<open>Fact rows, the warehouse and the environment\<close>

text \<open>
  A row of the table \<open>FACT_DELIVERIES\<close>, and of a batch once its \<open>DELIVERY_ID\<close> has
  been cast to int64, is that id paired with the remaining columns. The table is created by \<open>create_table_if_not_exists\<close> from the
  columns of the batch and without any key constraint, so it is a list of rows of the same
  shape, in storage order, and may repeat an id.
\<close>

type_synonym 'v fact_row = "int \<times> 'v"

definition delivery_ids :: "'v fact_row list \<Rightarrow> int list" where
  "delivery_ids rows = map fst rows"

text \<open>
  The SQL statements and driver calls that the module sends to the warehouse. The module
  builds their text; what they do to the table is their SQL meaning, written out below
  where each is sent.
\<close>

datatype stmt =
    SelectCurrent
  | SelectCount
  | SelectIds
  | HasTable
  | CreateTable
  | CreateTempTable
  | StageRows
  | MergeInto
  | DropTempTable
  | DeleteRows
  | InsertRows

text \<open>The mutation interface: every statement that is not a pure read.\<close>

fun mutating :: "stmt \<Rightarrow> bool" where
  "mutating SelectCurrent = False"
| "mutating SelectCount = False"
| "mutating SelectIds = False"
| "mutating HasTable = False"
| "mutating CreateTable = True"
| "mutating CreateTempTable = True"
| "mutating StageRows = True"
| "mutating MergeInto = True"
| "mutating DropTempTable = True"
| "mutating DeleteRows = True"
| "mutating InsertRows = True"

datatype py_exception =
    FileNotFoundError
  | KeyError
  | EngineError
  | OverflowError
  | SqlError stmt

text \<open>
  The environment condition of one call: whether \<open>config/settings.ini\<close> exists, whether it
  has a \<open>[snowflake]\<close> section, whether the URL and engine can be built from it, and which
  statements the warehouse rejects (an unreachable warehouse rejects all of them).
\<close>

record environment =
  config_file_exists :: bool
  snowflake_section :: bool
  engine_builds :: bool
  rejects :: "stmt \<Rightarrow> bool"

text \<open>
  The warehouse: the fact table (\<open>None\<close> while it does not exist) and the statements sent
  so far, oldest first.
\<close>

record 'v warehouse =
  fact_table :: "'v fact_row list option"
  executed :: "stmt list"

definition send :: "stmt \<Rightarrow> 'v warehouse \<Rightarrow> 'v warehouse" where
  "send s w = w\<lparr>executed := executed w @ [s]\<rparr>"

subsection \<open>The incoming batch and convert\_dataframe\_types\<close>

text \<open>
  The incoming DataFrame, by the dtype of its \<open>DELIVERY_ID\<close> column: 64-bit signed
  integers, 64-bit unsigned integers, or Python integers of any size (dtype object).
\<close>

datatype 'v dataframe =
    Int64Frame "(64 word \<times> 'v) list"
  | UInt64Frame "(64 word \<times> 'v) list"
  | ObjectFrame "(int \<times> 'v) list"

text \<open>The rows of the batch as it is handed in, each id read as the number it denotes.\<close>

fun frame_rows :: "'v dataframe \<Rightarrow> 'v fact_row list" where
  "frame_rows (Int64Frame rs) = map (\<lambda>r. (sint (fst r), snd r)) rs"
| "frame_rows (UInt64Frame rs) = map (\<lambda>r. (uint (fst r), snd r)) rs"
| "frame_rows (ObjectFrame rs) = rs"

definition fits_int64 :: "int \<Rightarrow> bool" where
  "fits_int64 i = (- (2 ^ 63) \<le> i \<and> i < 2 ^ 63)"

text \<open>
  \<open>df['DELIVERY_ID'].astype('int64')\<close>: an int64 column is unchanged, the bits of a
  uint64 column are read as signed, and a Python integer outside the int64 range raises
  \<open>OverflowError\<close>.
\<close>

fun convert_dataframe_types :: "'v dataframe \<Rightarrow> py_exception + 'v fact_row list" where
  "convert_dataframe_types (Int64Frame rs) = Inr (map (\<lambda>r. (sint (fst r), snd r)) rs)"
| "convert_dataframe_types (UInt64Frame rs) = Inr (map (\<lambda>r. (sint (fst r), snd r)) rs)"
| "convert_dataframe_types (ObjectFrame rs) =
     (if list_all (\<lambda>r. fits_int64 (fst r)) rs then Inr rs else Inl OverflowError)"

subsection \<open>get\_snowflake\_connection\<close>

definition get_snowflake_connection :: "environment \<Rightarrow> py_exception + unit" where
  "get_snowflake_connection env =
     (if \<not> config_file_exists env then Inl FileNotFoundError
      else if \<not> snowflake_section env then Inl KeyError
      else if \<not> engine_builds env then Inl EngineError
      else Inr ())"

subsection \<open>verify\_snowflake\_connection and count\_records\_in\_snowflake\<close>

definition verify_snowflake_connection ::
  "environment \<Rightarrow> 'v warehouse \<Rightarrow> bool \<times> 'v warehouse" where
  "verify_snowflake_connection env w =
     (case get_snowflake_connection env of
        Inl e \<Rightarrow> (False, w)
      | Inr u \<Rightarrow> (\<not> rejects env SelectCurrent, send SelectCurrent w))"

text \<open>\<open>SELECT COUNT(*)\<close> on the fact table; it fails when the table does not exist.\<close>

definition select_count ::
  "environment \<Rightarrow> 'v warehouse \<Rightarrow> (py_exception + int) \<times> 'v warehouse" where
  "select_count env w =
     (if rejects env SelectCount then (Inl (SqlError SelectCount), send SelectCount w)
      else case fact_table w of
             None \<Rightarrow> (Inl (SqlError SelectCount), send SelectCount w)
           | Some t \<Rightarrow> (Inr (int (length t)), send SelectCount w))"

text \<open>
  The engine is acquired before the \<open>try\<close>; inside it every exception is turned into the
  count 0.
\<close>

definition count_records_in_snowflake ::
  "environment \<Rightarrow> 'v warehouse \<Rightarrow> (py_exception + int) \<times> 'v warehouse" where
  "count_records_in_snowflake env w =
     (case get_snowflake_connection env of
        Inl e \<Rightarrow> (Inl e, w)
      | Inr u \<Rightarrow>
          (case select_count env w of
             (Inl e, w') \<Rightarrow> (Inr 0, w')
           | (Inr c, w') \<Rightarrow> (Inr c, w')))"

subsection \<open>The statements of the two upsert paths\<close>

text \<open>\<open>SELECT "DELIVERY_ID" FROM table\<close>, collected into a set.\<close>

definition select_ids ::
  "environment \<Rightarrow> 'v warehouse \<Rightarrow> (py_exception + int set) \<times> 'v warehouse" where
  "select_ids env w =
     (if rejects env SelectIds then (Inl (SqlError SelectIds), send SelectIds w)
      else case fact_table w of
             None \<Rightarrow> (Inl (SqlError SelectIds), send SelectIds w)
           | Some t \<Rightarrow> (Inr (set (delivery_ids t)), send SelectIds w))"

text \<open>
  \<open>new_records_mask = ~df['DELIVERY_ID'].isin(existing_ids)\<close>, \<open>new_df = df[mask]\<close>,
  \<open>update_df = df[~mask]\<close>.
\<close>

definition new_records_mask :: "int set \<Rightarrow> 'v fact_row list \<Rightarrow> bool list" where
  "new_records_mask existing_ids df = map (\<lambda>r. \<not> (fst r \<in> existing_ids)) df"

definition select_mask :: "'a list \<Rightarrow> bool list \<Rightarrow> 'a list" where
  "select_mask df msk = map fst (filter snd (zip df msk))"

definition new_df :: "int set \<Rightarrow> 'v fact_row list \<Rightarrow> 'v fact_row list" where
  "new_df existing_ids df = select_mask df (new_records_mask existing_ids df)"

definition update_df :: "int set \<Rightarrow> 'v fact_row list \<Rightarrow> 'v fact_row list" where
  "update_df existing_ids df =
     select_mask df (map Not (new_records_mask existing_ids df))"

text \<open>
  The \<open>MERGE INTO target USING source ON target.DELIVERY_ID = source.DELIVERY_ID\<close>
  statement. A target row that joins more than one source row makes the statement fail
  (the warehouse's default for a nondeterministic merge). Otherwise every matched target
  row takes all non-key columns of its source row, every source row without a match is
  inserted, and the row count is the number of rows updated plus the number inserted.
\<close>

definition merge_conflict :: "'v fact_row list \<Rightarrow> 'v fact_row list \<Rightarrow> bool" where
  "merge_conflict target source =
     list_ex (\<lambda>t. 1 < length (filter (\<lambda>s. fst s = fst t) source)) target"

definition merge_row :: "'v fact_row list \<Rightarrow> 'v fact_row \<Rightarrow> 'v fact_row" where
  "merge_row source t =
     (case find (\<lambda>s. fst s = fst t) source of
        None \<Rightarrow> t
      | Some s \<Rightarrow> (fst t, snd s))"

definition merge_into ::
  "'v fact_row list \<Rightarrow> 'v fact_row list \<Rightarrow> ('v fact_row list \<times> int) option" where
  "merge_into target source =
     (if merge_conflict target source then None
      else Some
        (map (merge_row source) target
           @ filter (\<lambda>s. fst s \<notin> set (delivery_ids target)) source,
         int (length (filter (\<lambda>t. fst t \<in> set (delivery_ids source)) target))
           + int (length (filter (\<lambda>s. fst s \<notin> set (delivery_ids target)) source))))"

text \<open>
  The second \<open>engine.begin()\<close> block of the primary path: count, merge, drop the temporary
  table, count again. The block is one transaction: when a statement fails the table is
  left as it was.
\<close>

definition merge_transaction ::
  "environment \<Rightarrow> 'v fact_row list \<Rightarrow> 'v warehouse
     \<Rightarrow> (py_exception + (bool \<times> int \<times> int)) \<times> 'v warehouse" where
  "merge_transaction env all_data_df w =
     (if rejects env SelectCount then (Inl (SqlError SelectCount), send SelectCount w)
      else case fact_table w of
        None \<Rightarrow> (Inl (SqlError SelectCount), send SelectCount w)
      | Some t \<Rightarrow>
         (let count_before_merge = int (length t); w1 = send SelectCount w in
          if rejects env MergeInto then (Inl (SqlError MergeInto), send MergeInto w1)
          else case merge_into t all_data_df of
            None \<Rightarrow> (Inl (SqlError MergeInto), send MergeInto w1)
          | Some (t', rows_affected) \<Rightarrow>
             (let w2 = send MergeInto w1 in
              if rejects env DropTempTable
              then (Inl (SqlError DropTempTable), send DropTempTable w2)
              else
               (let w3 = send DropTempTable w2 in
                if rejects env SelectCount
                then (Inl (SqlError SelectCount), send SelectCount w3)
                else
                 (let count_after_merge = int (length t');
                      new_records_count = count_after_merge - count_before_merge;
                      updated_records_count = rows_affected - new_records_count
                  in (Inr (True, new_records_count, updated_records_count),
                      (send SelectCount w3)\<lparr>fact_table := Some t'\<rparr>))))))"

subsection \<open>upsert\_to\_snowflake (primary path)\<close>

text \<open>
  Steps 1 to 3 of the \<open>try\<close> block of either path: count the records, fetch the
  existing ids, separate the batch into \<open>new_df\<close> and \<open>update_df\<close>.
\<close>

definition separate_records ::
  "environment \<Rightarrow> 'v fact_row list \<Rightarrow> 'v warehouse
     \<Rightarrow> (py_exception + ('v fact_row list \<times> 'v fact_row list)) \<times> 'v warehouse" where
  "separate_records env df_fixed w =
     (case count_records_in_snowflake env w of
        (Inl e, w1) \<Rightarrow> (Inl e, w1)
      | (Inr count_before, w1) \<Rightarrow>
        (case select_ids env w1 of
           (Inl e, w2) \<Rightarrow> (Inl e, w2)
         | (Inr existing_ids, w2) \<Rightarrow>
             (Inr (new_df existing_ids df_fixed, update_df existing_ids df_fixed), w2)))"

text \<open>The body of the \<open>try\<close> block.\<close>

definition upsert_try ::
  "environment \<Rightarrow> 'v fact_row list \<Rightarrow> 'v warehouse
     \<Rightarrow> (py_exception + (bool \<times> int \<times> int)) \<times> 'v warehouse" where
  "upsert_try env df_fixed w =
     (case separate_records env df_fixed w of
        (Inl e, w2) \<Rightarrow> (Inl e, w2)
      | (Inr (new, upd), w2) \<Rightarrow>
          (if 0 < length upd \<or> 0 < length new then
             (if rejects env CreateTempTable
              then (Inl (SqlError CreateTempTable), send CreateTempTable w2)
              else
               (let w3 = send CreateTempTable w2; all_data_df = new @ upd in
                if rejects env StageRows
                then (Inl (SqlError StageRows), send StageRows w3)
                else merge_transaction env all_data_df (send StageRows w3)))
           else (Inr (True, 0, 0), w2)))"

text \<open>
  The empty check, the cast and the engine come before the \<open>try\<close>: what the cast or
  \<open>get_snowflake_connection\<close> raises leaves the function.
\<close>

definition upsert_to_snowflake ::
  "environment \<Rightarrow> 'v dataframe \<Rightarrow> 'v warehouse
     \<Rightarrow> (py_exception + (bool \<times> int \<times> int)) \<times> 'v warehouse" where
  "upsert_to_snowflake env df w =
     (if frame_rows df = [] then (Inr (False, 0, 0), w)
      else case convert_dataframe_types df of
        Inl e \<Rightarrow> (Inl e, w)
      | Inr df_fixed \<Rightarrow>
         (case get_snowflake_connection env of
            Inl e \<Rightarrow> (Inl e, w)
          | Inr u \<Rightarrow>
             (case upsert_try env df_fixed w of
                (Inl e, w') \<Rightarrow> (Inr (False, 0, 0), w')
              | (Inr r, w') \<Rightarrow> (Inr r, w'))))"

subsection \<open>upsert\_to\_snowflake\_alternative (fallback path)\<close>

text \<open>\<open>Series.unique().tolist()\<close>: the distinct values in order of first appearance.\<close>

fun unique_ids :: "int list \<Rightarrow> int list" where
  "unique_ids [] = []"
| "unique_ids (x # xs) = x # unique_ids (filter (\<lambda>y. y \<noteq> x) xs)"

text \<open>
  \<open>for i in range(0, len(ids), batch_size): batch_ids = ids[i:i + batch_size]\<close>:
  the successive slices of at most \<open>batch_size\<close> ids.
\<close>

function batches :: "nat \<Rightarrow> 'a list \<Rightarrow> 'a list list" where
  "batches batch_size xs =
     (if xs = [] \<or> batch_size = 0 then []
      else take batch_size xs # batches batch_size (drop batch_size xs))"
  by pat_completeness auto
termination
  by (relation "measure (\<lambda>(n, xs). length xs)") auto

declare batches.simps [simp del]

text \<open>
  One \<open>DELETE FROM table WHERE "DELIVERY_ID" IN (...)\<close> per slice, each in a transaction
  of its own; \<open>updated_count\<close> adds up the row counts.
\<close>

fun delete_batches ::
  "environment \<Rightarrow> int list list \<Rightarrow> int \<Rightarrow> 'v warehouse
     \<Rightarrow> (py_exception + int) \<times> 'v warehouse" where
  "delete_batches env [] updated_count w = (Inr updated_count, w)"
| "delete_batches env (batch_ids # rest) updated_count w =
     (if rejects env DeleteRows then (Inl (SqlError DeleteRows), send DeleteRows w)
      else case fact_table w of
        None \<Rightarrow> (Inl (SqlError DeleteRows), send DeleteRows w)
      | Some t \<Rightarrow>
          delete_batches env rest
            (updated_count + int (length (filter (\<lambda>r. fst r \<in> set batch_ids) t)))
            ((send DeleteRows w)
               \<lparr>fact_table := Some (filter (\<lambda>r. fst r \<notin> set batch_ids) t)\<rparr>))"

text \<open>
  \<open>DataFrame.to_sql(table, if_exists='append')\<close>: the rows are appended; pandas creates
  the table when it does not exist.
\<close>

definition insert_rows ::
  "environment \<Rightarrow> 'v fact_row list \<Rightarrow> 'v warehouse
     \<Rightarrow> (py_exception + unit) \<times> 'v warehouse" where
  "insert_rows env rows w =
     (if rejects env InsertRows then (Inl (SqlError InsertRows), send InsertRows w)
      else (Inr (),
            (send InsertRows w)
              \<lparr>fact_table :=
                 Some ((case fact_table w of None \<Rightarrow> [] | Some t \<Rightarrow> t) @ rows)\<rparr>))"

definition alternative_try ::
  "environment \<Rightarrow> 'v fact_row list \<Rightarrow> 'v warehouse
     \<Rightarrow> (py_exception + (bool \<times> int \<times> int)) \<times> 'v warehouse" where
  "alternative_try env df_fixed w =
     (case separate_records env df_fixed w of
        (Inl e, w2) \<Rightarrow> (Inl e, w2)
      | (Inr (new, upd), w2) \<Rightarrow>
          (case (if 0 < length upd
                 then delete_batches env
                        (batches 500 (unique_ids (delivery_ids upd))) 0 w2
                 else (Inr 0, w2)) of
             (Inl e, w3) \<Rightarrow> (Inl e, w3)
           | (Inr updated_count, w3) \<Rightarrow>
             (let all_records_df = new @ upd in
              case (if 0 < length all_records_df
                    then insert_rows env all_records_df w3
                    else (Inr (), w3)) of
                (Inl e, w4) \<Rightarrow> (Inl e, w4)
              | (Inr u, w4) \<Rightarrow>
                (case count_records_in_snowflake env w4 of
                   (Inl e, w5) \<Rightarrow> (Inl e, w5)
                 | (Inr count_after, w5) \<Rightarrow>
                     (Inr (True, int (length new), int (length upd)), w5)))))"

definition upsert_to_snowflake_alternative ::
  "environment \<Rightarrow> 'v dataframe \<Rightarrow> 'v warehouse
     \<Rightarrow> (py_exception + (bool \<times> int \<times> int)) \<times> 'v warehouse" where
  "upsert_to_snowflake_alternative env df w =
     (if frame_rows df = [] then (Inr (False, 0, 0), w)
      else case convert_dataframe_types df of
        Inl e \<Rightarrow> (Inl e, w)
      | Inr df_fixed \<Rightarrow>
         (case get_snowflake_connection env of
            Inl e \<Rightarrow> (Inl e, w)
          | Inr u \<Rightarrow>
             (case alternative_try env df_fixed w of
                (Inl e, w') \<Rightarrow> (Inr (False, 0, 0), w')
              | (Inr r, w') \<Rightarrow> (Inr r, w'))))"

subsection \<open>analyze\_upsert\_performance and create\_table\_if\_not\_exists\<close>

text \<open>The analysis reads the ids of the batch as they are, without the cast.\<close>

definition analyze_upsert_performance ::
  "environment \<Rightarrow> 'v dataframe \<Rightarrow> 'v warehouse
     \<Rightarrow> (py_exception + (int \<times> int \<times> int) option) \<times> 'v warehouse" where
  "analyze_upsert_performance env df w =
     (case get_snowflake_connection env of
        Inl e \<Rightarrow> (Inl e, w)
      | Inr u \<Rightarrow>
         (case select_ids env w of
            (Inl e, w') \<Rightarrow> (Inr None, w')
          | (Inr existing_ids, w') \<Rightarrow>
              (Inr (Some
                 (int (length (filter (\<lambda>i. i \<notin> existing_ids) (delivery_ids (frame_rows df)))),
                  int (length (filter (\<lambda>i. i \<in> existing_ids) (delivery_ids (frame_rows df)))),
                  int (length (frame_rows df)))), w')))"

definition create_table_if_not_exists ::
  "environment \<Rightarrow> 'v warehouse \<Rightarrow> bool \<times> 'v warehouse" where
  "create_table_if_not_exists env w =
     (if rejects env HasTable then (False, send HasTable w)
      else case fact_table w of
        Some t \<Rightarrow> (True, send HasTable w)
      | None \<Rightarrow>
         (if rejects env CreateTable then (False, send CreateTable (send HasTable w))
          else (True, (send CreateTable (send HasTable w))\<lparr>fact_table := Some []\<rparr>)))"

subsection \<open>load\_complete\_pipeline\<close>

text \<open>Step 5: the primary upsert, and the alternative when the primary reports failure.\<close>

definition robust_upsert ::
  "environment \<Rightarrow> 'v dataframe \<Rightarrow> 'v warehouse
     \<Rightarrow> (py_exception + (bool \<times> int \<times> int)) \<times> 'v warehouse" where
  "robust_upsert env df w =
     (case upsert_to_snowflake env df w of
        (Inl e, w1) \<Rightarrow> (Inl e, w1)
      | (Inr (success, new_records, updated_records), w1) \<Rightarrow>
          (if \<not> success then upsert_to_snowflake_alternative env df w1
           else (Inr (success, new_records, updated_records), w1)))"

definition load_complete_pipeline ::
  "environment \<Rightarrow> 'v dataframe \<Rightarrow> 'v warehouse
     \<Rightarrow> (py_exception + bool) \<times> 'v warehouse" where
  "load_complete_pipeline env transformed_df w =
     (case verify_snowflake_connection env w of
        (False, w1) \<Rightarrow> (Inr False, w1)
      | (True, w1) \<Rightarrow>
        (case count_records_in_snowflake env w1 of
           (Inl e, w2) \<Rightarrow> (Inl e, w2)
         | (Inr records_before, w2) \<Rightarrow>
           (case analyze_upsert_performance env transformed_df w2 of
              (Inl e, w3) \<Rightarrow> (Inl e, w3)
            | (Inr upsert_analysis, w3) \<Rightarrow>
              (case get_snowflake_connection env of
                 Inl e \<Rightarrow> (Inl e, w3)
               | Inr u \<Rightarrow>
                 (case create_table_if_not_exists env w3 of
                    (False, w4) \<Rightarrow> (Inr False, w4)
                  | (True, w4) \<Rightarrow>
                    (case robust_upsert env transformed_df w4 of
                       (Inl e, w5) \<Rightarrow> (Inl e, w5)
                     | (Inr (success, new_records, updated_records), w5) \<Rightarrow>
                       (if \<not> success then (Inr False, w5)
                        else case count_records_in_snowflake env w5 of
                          (Inl e, w6) \<Rightarrow> (Inl e, w6)
                        | (Inr records_after, w6) \<Rightarrow>
                            (if records_after = records_before + new_records
                             then (Inr True, w6)
                             else (Inr True, w6)))))))))"

section \<open>Transformation module (FA\_transform.py)\<close>

subsection \<open>Rows of the extracted and of the transformed batch\<close>

text \<open>
  A row of the extracted batch. A null cell (\<open>None\<close>, \<open>NaN\<close>, \<open>NaT\<close>) is \<open>None\<close>.
  Timestamps are whole seconds, measures are exact numbers. The columns that the
  transformation only carries along are kept as a list of cells.
\<close>

record raw_row =
  delivery_id :: "int option"
  vehicle_id :: "int option"
  driver_id :: "int option"
  date_key :: "int option"
  scheduled_datetime :: "int option"
  delivered_datetime :: "int option"
  delivery_distance_km :: "real option"
  delivery_fuel_consumed :: "real option"
  package_weight_kg :: "real option"
  fuel_efficiency_km_per_liter :: "real option"
  delay_minutes :: "real option"
  revenue_per_delivery :: "real option"
  delivery_status :: "string option"
  is_on_time :: "bool option"
  other_columns :: "string option list"

text \<open>The five columns computed by steps 1 to 5 of \<open>transform_delivery_data\<close>.\<close>

record enriched_row = raw_row +
  delivery_duration_minutes :: "real option"
  delay_minutes_calculated :: "real option"
  on_time_status :: bool
  fuel_efficiency_calculated :: "real option"
  revenue_per_delivery_calculated :: "real option"

record stamped_row = enriched_row +
  transformation_timestamp :: int

record scored_row = stamped_row +
  data_quality_score :: real

subsection \<open>Column operations\<close>

text \<open>Comparisons of a column with a scalar: a null cell compares false.\<close>

definition series_gt :: "real option list \<Rightarrow> real \<Rightarrow> bool list" where
  "series_gt col c = map (\<lambda>v. case v of None \<Rightarrow> False | Some x \<Rightarrow> c < x) col"

definition series_lt :: "real option list \<Rightarrow> real \<Rightarrow> bool list" where
  "series_lt col c = map (\<lambda>v. case v of None \<Rightarrow> False | Some x \<Rightarrow> x < c) col"

definition series_ge :: "real option list \<Rightarrow> real \<Rightarrow> bool list" where
  "series_ge col c = map (\<lambda>v. case v of None \<Rightarrow> False | Some x \<Rightarrow> c \<le> x) col"

definition series_le :: "real option list \<Rightarrow> real \<Rightarrow> bool list" where
  "series_le col c = map (\<lambda>v. case v of None \<Rightarrow> False | Some x \<Rightarrow> x \<le> c) col"

text \<open>\<open>pd.to_datetime(a) >= pd.to_datetime(b)\<close>, element by element.\<close>

definition datetime_ge :: "int option list \<Rightarrow> int option list \<Rightarrow> bool list" where
  "datetime_ge a b =
     map2 (\<lambda>x y. case x of None \<Rightarrow> False
                  | Some d \<Rightarrow> (case y of None \<Rightarrow> False | Some s \<Rightarrow> s \<le> d)) a b"

definition notna :: "'a option list \<Rightarrow> bool list" where
  "notna col = map (\<lambda>v. v \<noteq> None) col"

definition mask_and :: "bool list \<Rightarrow> bool list \<Rightarrow> bool list" where
  "mask_and a b = map2 (\<lambda>x y. x \<and> y) a b"

definition mask_or :: "bool list \<Rightarrow> bool list \<Rightarrow> bool list" where
  "mask_or a b = map2 (\<lambda>x y. x \<or> y) a b"

text \<open>\<open>mask.sum()\<close>: the number of true entries.\<close>

definition mask_sum :: "bool list \<Rightarrow> nat" where
  "mask_sum m = length (filter (\<lambda>b. b) m)"

subsection \<open>Steps 1 to 5: the computed columns\<close>

text \<open>\<open>(delivered - scheduled).dt.total_seconds() / 60\<close>\<close>

definition minutes_between :: "int option \<Rightarrow> int option \<Rightarrow> real option" where
  "minutes_between delivered scheduled =
     (case delivered of None \<Rightarrow> None
      | Some d \<Rightarrow> (case scheduled of None \<Rightarrow> None | Some s \<Rightarrow> Some (real_of_int (d - s) / 60)))"

definition add_computed_columns :: "raw_row \<Rightarrow> enriched_row" where
  "add_computed_columns r =
     raw_row.extend r
       (enriched_row.fields
          (minutes_between (delivered_datetime r) (scheduled_datetime r))
          (minutes_between (delivered_datetime r) (scheduled_datetime r))
          (case delay_minutes r of None \<Rightarrow> False | Some m \<Rightarrow> m \<le> 0)
          (case delivery_fuel_consumed r of
             None \<Rightarrow> Some 0
           | Some f \<Rightarrow>
               if 0 < f
               then (case delivery_distance_km r of None \<Rightarrow> None | Some d \<Rightarrow> Some (d / f))
               else Some 0)
          (if delivery_status r = Some ''delivered'' then revenue_per_delivery r else Some 0))"

subsection \<open>validate\_data\_quality\<close>

definition valid_mask :: "'a enriched_row_scheme list \<Rightarrow> bool list" where
  "valid_mask df =
     mask_and (series_gt (map delivery_duration_minutes df) 0)
    (mask_and (series_lt (map delivery_duration_minutes df) 1440)
    (mask_and (series_gt (map delivery_distance_km df) 0)
    (mask_and (series_lt (map delivery_distance_km df) 5000)
    (mask_and (series_ge (map package_weight_kg df) 0)
    (mask_and (series_lt (map package_weight_kg df) 10000)
    (mask_and (series_gt (map fuel_efficiency_km_per_liter df) 0)
    (mask_and (series_lt (map fuel_efficiency_km_per_liter df) 50)
    (mask_and (datetime_ge (map delivered_datetime df) (map scheduled_datetime df))
    (mask_and (notna (map delivery_status df))
    (mask_and (notna (map vehicle_id df))
              (notna (map driver_id df))))))))))))"

definition validate_data_quality ::
  "'a enriched_row_scheme list \<Rightarrow> 'a enriched_row_scheme list" where
  "validate_data_quality df = select_mask df (valid_mask df)"

text \<open>\<open>verify_dimension_keys\<close> prints the key ranges and returns the batch unchanged.\<close>

definition verify_dimension_keys ::
  "'a enriched_row_scheme list \<Rightarrow> 'a enriched_row_scheme list" where
  "verify_dimension_keys df = df"

subsection \<open>calculate\_quality\_score\<close>

definition null_count :: "'a option list \<Rightarrow> nat" where
  "null_count cells = length (filter (\<lambda>v. v = None) cells)"

text \<open>
  \<open>df.isnull().sum()\<close> on the twenty named columns: the number of nulls of each column.
  \<open>on_time_status\<close> and \<open>transformation_timestamp\<close> hold a value in every row.
\<close>

definition named_column_nulls :: "stamped_row list \<Rightarrow> nat list" where
  "named_column_nulls df =
     [null_count (map delivery_id df), null_count (map vehicle_id df),
      null_count (map driver_id df), null_count (map date_key df),
      null_count (map scheduled_datetime df), null_count (map delivered_datetime df),
      null_count (map delivery_distance_km df), null_count (map delivery_fuel_consumed df),
      null_count (map package_weight_kg df), null_count (map fuel_efficiency_km_per_liter df),
      null_count (map delay_minutes df), null_count (map revenue_per_delivery df),
      null_count (map delivery_status df), null_count (map is_on_time df),
      null_count (map delivery_duration_minutes df),
      null_count (map delay_minutes_calculated df),
      null_count (map (\<lambda>r. Some (on_time_status r)) df),
      null_count (map fuel_efficiency_calculated df),
      null_count (map revenue_per_delivery_calculated df),
      null_count (map (\<lambda>r. Some (transformation_timestamp r)) df)]"

text \<open>The number of carried columns of the frame, and their null counts, column by column.\<close>

definition carried_width :: "'a raw_row_scheme list \<Rightarrow> nat" where
  "carried_width df = (case df of [] \<Rightarrow> 0 | r # rest \<Rightarrow> length (other_columns r))"

definition carried_column_nulls :: "stamped_row list \<Rightarrow> nat list" where
  "carried_column_nulls df =
     map (\<lambda>j. null_count (map (\<lambda>r. other_columns r ! j) df)) [0..<carried_width df]"

text \<open>\<open>df.isnull().sum().sum()\<close>\<close>

definition isnull_sum :: "stamped_row list \<Rightarrow> nat" where
  "isnull_sum df = sum_list (named_column_nulls df) + sum_list (carried_column_nulls df)"

text \<open>\<open>len(df.columns)\<close>\<close>

definition column_count :: "stamped_row list \<Rightarrow> nat" where
  "column_count df = length (named_column_nulls df) + length (carried_column_nulls df)"

definition calculate_quality_score :: "stamped_row list \<Rightarrow> real" where
  "calculate_quality_score df =
     (let score = 100;
          null_penalty = (real (isnull_sum df) / real (length df * column_count df)) * 50;
          score = score - null_penalty;
          extreme_efficiency =
            mask_sum (mask_or (series_lt (map fuel_efficiency_km_per_liter df) 5)
                              (series_gt (map fuel_efficiency_km_per_liter df) 30));
          score = score - (real extreme_efficiency / real (length df)) * 20;
          extreme_duration =
            mask_sum (mask_or (series_lt (map delivery_duration_minutes df) 30)
                              (series_gt (map delivery_duration_minutes df) 600));
          score = score - (real extreme_duration / real (length df)) * 15;
          extreme_delay = mask_sum (series_gt (map delay_minutes df) 240);
          score = score - (real extreme_delay / real (length df)) * 10
      in max 0 (min 100 score))"

subsection \<open>transform\_delivery\_data\<close>

definition stamp :: "int \<Rightarrow> enriched_row \<Rightarrow> stamped_row" where
  "stamp now r = enriched_row.extend r (stamped_row.fields now)"

definition with_score :: "real \<Rightarrow> stamped_row \<Rightarrow> scored_row" where
  "with_score s r = stamped_row.extend r (scored_row.fields s)"

text \<open>
  Steps 6 to 8 on the batch with its computed columns: validation, key check, the
  timestamp column, and the score of the whole batch assigned to the score column.
\<close>

definition validated_batch :: "int \<Rightarrow> raw_row list \<Rightarrow> stamped_row list" where
  "validated_batch now raw_df =
     map (stamp now)
       (verify_dimension_keys (validate_data_quality (map add_computed_columns raw_df)))"

definition transform_delivery_data :: "int \<Rightarrow> raw_row list \<Rightarrow> scored_row list" where
  "transform_delivery_data now raw_df =
     (if raw_df = [] then []
      else let df = validated_batch now raw_df
           in map (with_score (calculate_quality_score df)) df)"

subsection \<open>validate\_snowflake\_compatibility, prepare\_for\_snowflake\<close>

text \<open>
  The two checks that return \<open>False\<close>: a null in a critical key, and an \<open>is_on_time\<close>
  column that is not boolean (it holds a null). The other checks only print.
\<close>

definition validate_snowflake_compatibility :: "scored_row list \<Rightarrow> bool" where
  "validate_snowflake_compatibility df =
     (if list_ex (\<lambda>r. delivery_id r = None \<or> vehicle_id r = None \<or> driver_id r = None
                       \<or> date_key r = None) df
      then False
      else if list_ex (\<lambda>r. is_on_time r = None) df then False
      else True)"

text \<open>
  The projection onto the warehouse columns (selection of the final columns, rounding to
  two decimals, upper-case names) works row by row; \<open>project\<close> is that row function.
  The key columns are left as they are: \<open>delivery_id\<close> stays the int64 column of the
  extract.
\<close>

definition prepare_for_snowflake ::
  "(scored_row \<Rightarrow> 64 word \<times> 'v) \<Rightarrow> scored_row list \<Rightarrow> (64 word \<times> 'v) list" where
  "prepare_for_snowflake project df = map project df"

definition transform_complete_pipeline ::
  "int \<Rightarrow> (scored_row \<Rightarrow> 64 word \<times> 'v) \<Rightarrow> raw_row list \<Rightarrow> (64 word \<times> 'v) list" where
  "transform_complete_pipeline now project raw_df =
     (let transformed_data = transform_delivery_data now raw_df in
      if transformed_data = [] then []
      else if \<not> validate_snowflake_compatibility transformed_data then []
      else let snowflake_ready = prepare_for_snowflake project transformed_data in
           if snowflake_ready = [] then [] else snowflake_ready)"

section \<open>Orchestrator (FA\_main.py)\<close>

text \<open>
  What the extraction step and the staging directory give to one run: phase 1 looks for
  the staging directory and its Parquet files (or a PostgreSQL engine), phase 2 runs the
  extraction (\<open>None\<close> when it raises, else its exit code) and reads the newest Parquet
  file (\<open>None\<close> when reading raises).
\<close>

record extraction =
  staging_exists_before :: bool
  parquet_present_before :: bool
  postgres_engine_builds :: bool
  extract_main_result :: "int option"
  staging_exists_after :: bool
  parquet_present_after :: bool
  parquet_content :: "raw_row list option"

text \<open>Phase 4 inside its \<open>try\<close>: any exception is logged and gives \<open>False\<close>.\<close>

definition load_phase ::
  "environment \<Rightarrow> 'v dataframe \<Rightarrow> 'v warehouse \<Rightarrow> bool \<times> 'v warehouse" where
  "load_phase env transformed_data w =
     (case count_records_in_snowflake env w of
        (Inl e, w1) \<Rightarrow> (False, w1)
      | (Inr records_before, w1) \<Rightarrow>
        (case load_complete_pipeline env transformed_data w1 of
           (Inl e, w2) \<Rightarrow> (False, w2)
         | (Inr success, w2) \<Rightarrow>
           (if success
            then (case count_records_in_snowflake env w2 of
                    (Inl e, w3) \<Rightarrow> (False, w3)
                  | (Inr records_after, w3) \<Rightarrow> (True, w3))
            else (False, w2))))"

definition run_complete_etl ::
  "environment \<Rightarrow> extraction \<Rightarrow> int \<Rightarrow> (scored_row \<Rightarrow> 64 word \<times> 'v) \<Rightarrow> 'v warehouse
     \<Rightarrow> bool \<times> 'v warehouse" where
  "run_complete_etl env ex now project w =
     (if \<not> staging_exists_before ex then (False, w)
      else if \<not> parquet_present_before ex \<and> \<not> postgres_engine_builds ex then (False, w)
      else case verify_snowflake_connection env w of
        (False, w1) \<Rightarrow> (False, w1)
      | (True, w1) \<Rightarrow>
         (if extract_main_result ex \<noteq> Some 0 then (False, w1)
          else if \<not> staging_exists_after ex then (False, w1)
          else if \<not> parquet_present_after ex then (False, w1)
          else case parquet_content ex of
            None \<Rightarrow> (False, w1)
          | Some raw_data \<Rightarrow>
             (if raw_data = [] then (False, w1)
              else let transformed_data = transform_complete_pipeline now project raw_data in
                   if transformed_data = [] then (False, w1)
                   else load_phase env (Int64Frame transformed_data) w1)))"

section \<open>The properties as the specification words them\<close>

text \<open>A cell satisfies a condition on numbers when it is not null and its value does.\<close>

definition cell_satisfies :: "real option \<Rightarrow> (real \<Rightarrow> bool) \<Rightarrow> bool" where
  "cell_satisfies v P = (case v of None \<Rightarrow> False | Some x \<Rightarrow> P x)"

text \<open>
  The row condition of the Validator as specified: duration in (0, 1440), distance in
  (0, 5000), weight in [0, 10000), stated fuel efficiency in (0, 50), delivered not before
  scheduled, and status, vehicle and driver present.
\<close>

definition spec_valid_row :: "'a enriched_row_scheme \<Rightarrow> bool" where
  "spec_valid_row r =
     (cell_satisfies (delivery_duration_minutes r) (\<lambda>d. 0 < d \<and> d < 1440)
      \<and> cell_satisfies (delivery_distance_km r) (\<lambda>x. 0 < x \<and> x < 5000)
      \<and> cell_satisfies (package_weight_kg r) (\<lambda>x. 0 \<le> x \<and> x < 10000)
      \<and> cell_satisfies (fuel_efficiency_km_per_liter r) (\<lambda>x. 0 < x \<and> x < 50)
      \<and> (case delivered_datetime r of None \<Rightarrow> False
          | Some d \<Rightarrow> (case scheduled_datetime r of None \<Rightarrow> False | Some s \<Rightarrow> s \<le> d))
      \<and> delivery_status r \<noteq> None \<and> vehicle_id r \<noteq> None \<and> driver_id r \<noteq> None)"

text \<open>
  The quality score as specified: 100 minus 50 times the fraction of null cells, 20 times
  the fraction of rows with fuel efficiency outside [5, 30], 15 times the fraction with
  duration outside [30, 600] and 10 times the fraction with a delay above 240, clamped to
  [0, 100].
\<close>

definition fraction :: "('a \<Rightarrow> bool) \<Rightarrow> 'a list \<Rightarrow> real" where
  "fraction P df = real (length (filter P df)) / real (length df)"

text \<open>The cells of one row, each marked null or not.\<close>

definition row_cells_null :: "stamped_row \<Rightarrow> bool list" where
  "row_cells_null r =
     [delivery_id r = None, vehicle_id r = None, driver_id r = None, date_key r = None,
      scheduled_datetime r = None, delivered_datetime r = None,
      delivery_distance_km r = None, delivery_fuel_consumed r = None,
      package_weight_kg r = None, fuel_efficiency_km_per_liter r = None,
      delay_minutes r = None, revenue_per_delivery r = None, delivery_status r = None,
      is_on_time r = None, delivery_duration_minutes r = None,
      delay_minutes_calculated r = None, False, fuel_efficiency_calculated r = None,
      revenue_per_delivery_calculated r = None, False]
     @ map (\<lambda>c. c = None) (other_columns r)"

definition null_fraction :: "stamped_row list \<Rightarrow> real" where
  "null_fraction df =
     real (length (filter (\<lambda>b. b) (concat (map row_cells_null df))))
       / real (length (concat (map row_cells_null df)))"

definition spec_quality_score :: "stamped_row list \<Rightarrow> real" where
  "spec_quality_score df =
     max 0 (min 100
       (100 - 50 * null_fraction df
            - 20 * fraction (\<lambda>r. cell_satisfies (fuel_efficiency_km_per_liter r) (\<lambda>x. \<not> (5 \<le> x \<and> x \<le> 30))) df
            - 15 * fraction (\<lambda>r. cell_satisfies (delivery_duration_minutes r) (\<lambda>x. \<not> (30 \<le> x \<and> x \<le> 600))) df
            - 10 * fraction (\<lambda>r. cell_satisfies (delay_minutes r) (\<lambda>x. 240 < x)) df))"

section \<open>Example environments and rows\<close>

definition working :: environment where
  "working = \<lparr>config_file_exists = True, snowflake_section = True, engine_builds = True,
               rejects = (\<lambda>s. False)\<rparr>"




text \<open>
  A delivery scheduled at second 0 and delivered \<open>dur\<close> seconds later (\<open>None\<close>: not yet
  delivered), with the given distance and upstream delay.
\<close>

definition sample_row :: "int \<Rightarrow> int option \<Rightarrow> real \<Rightarrow> real option \<Rightarrow> raw_row" where
  "sample_row i delivered km delay =
     \<lparr>delivery_id = Some i, vehicle_id = Some 201, driver_id = Some 301,
      date_key = Some 20251008, scheduled_datetime = Some 0, delivered_datetime = delivered,
      delivery_distance_km = Some km, delivery_fuel_consumed = Some 1,
      package_weight_kg = Some 5, fuel_efficiency_km_per_liter = Some 12,
      delay_minutes = delay, revenue_per_delivery = Some 25,
      delivery_status = Some ''delivered'', is_on_time = Some False,
      other_columns = [Some ''TRK'', None]\<rparr>"

section \<open>Properties of the load module\<close>

subsection \<open>The two upsert paths, reduced to their statements\<close>

lemma select_mask_map: "select_mask df (map P df) = filter P df"
  by (induction df) (auto simp: select_mask_def)

lemma new_df_filter: "new_df E df = filter (\<lambda>r. fst r \<notin> E) df"
  by (simp add: new_df_def new_records_mask_def select_mask_map)

lemma update_df_filter: "update_df E df = filter (\<lambda>r. fst r \<in> E) df"
proof -
  have "map Not (new_records_mask E df) = map (\<lambda>r. fst r \<in> E) df"
    by (simp add: new_records_mask_def)
  then show ?thesis by (simp add: update_df_def select_mask_map)
qed

lemma count_records_fact_table:
  "count_records_in_snowflake env w = (r, w') \<Longrightarrow> fact_table w' = fact_table w"
  by (auto simp: count_records_in_snowflake_def select_count_def send_def
           split: sum.splits if_splits option.splits)

lemma select_ids_Inr:
  "select_ids env w = (Inr E, w') \<Longrightarrow>
     \<exists>t. fact_table w = Some t \<and> E = set (delivery_ids t) \<and> fact_table w' = Some t
       \<and> \<not> rejects env SelectIds"
  by (auto simp: select_ids_def send_def split: if_splits option.splits)

lemma merge_transaction_True:
  "merge_transaction env src w = (Inr (True, n, u), w') \<Longrightarrow>
     \<exists>t t' a. fact_table w = Some t \<and> merge_into t src = Some (t', a)
       \<and> fact_table w' = Some t'
       \<and> n = int (length t') - int (length t) \<and> u = a - n"
  by (auto simp: merge_transaction_def send_def Let_def split: if_splits option.splits)

lemma separate_records_Inr:
  assumes "separate_records env dfx w = (Inr (new, upd), w2)"
  shows "\<exists>t. fact_table w = Some t \<and> fact_table w2 = Some t
           \<and> new = new_df (set (delivery_ids t)) dfx
           \<and> upd = update_df (set (delivery_ids t)) dfx
           \<and> \<not> rejects env SelectIds"
proof -
  from assms obtain c w1 where c: "count_records_in_snowflake env w = (Inr c, w1)"
    by (auto simp: separate_records_def split: sum.splits prod.splits)
  with assms obtain E where e: "select_ids env w1 = (Inr E, w2)"
    and nu: "new = new_df E dfx" "upd = update_df E dfx"
    by (auto simp: separate_records_def split: sum.splits prod.splits)
  from select_ids_Inr[OF e] count_records_fact_table[OF c] nu show ?thesis by auto
qed

lemma staged_nonempty:
  "dfx \<noteq> [] \<Longrightarrow> 0 < length (update_df E dfx) \<or> 0 < length (new_df E dfx)"
  by (cases dfx) (auto simp: new_df_filter update_df_filter)

lemma upsert_try_True:
  assumes "upsert_try env dfx w = (Inr (True, n, u), w')" "dfx \<noteq> []"
  shows "\<exists>t t' a. fact_table w = Some t
           \<and> merge_into t (new_df (set (delivery_ids t)) dfx @ update_df (set (delivery_ids t)) dfx)
               = Some (t', a)
           \<and> fact_table w' = Some t'
           \<and> n = int (length t') - int (length t) \<and> u = a - n"
proof -
  from assms(1) obtain new upd w2 where s: "separate_records env dfx w = (Inr (new, upd), w2)"
    by (auto simp: upsert_try_def split: sum.splits prod.splits)
  from separate_records_Inr[OF s] obtain t where
    t: "fact_table w = Some t" "fact_table w2 = Some t"
    and nu: "new = new_df (set (delivery_ids t)) dfx" "upd = update_df (set (delivery_ids t)) dfx"
    by blast
  from staged_nonempty[OF assms(2)] nu have "0 < length upd \<or> 0 < length new" by simp
  with assms(1) s
  have m: "merge_transaction env (new @ upd)
             (send StageRows (send CreateTempTable w2)) = (Inr (True, n, u), w')"
    by (auto simp: upsert_try_def Let_def split: if_splits)
  from merge_transaction_True[OF m] t nu show ?thesis
    by (auto simp: send_def)
qed

lemma upsert_frame_True:
  assumes "upsert_to_snowflake env df w = (Inr (True, n, u), w')"
  shows "\<exists>dfx. convert_dataframe_types df = Inr dfx \<and> frame_rows df \<noteq> []
           \<and> get_snowflake_connection env = Inr ()
           \<and> upsert_try env dfx w = (Inr (True, n, u), w')"
  using assms
  by (auto simp: upsert_to_snowflake_def split: if_splits sum.splits prod.splits)

lemma alternative_frame_True:
  assumes "upsert_to_snowflake_alternative env df w = (Inr (True, n, u), w')"
  shows "\<exists>dfx. convert_dataframe_types df = Inr dfx \<and> frame_rows df \<noteq> []
           \<and> get_snowflake_connection env = Inr ()
           \<and> alternative_try env dfx w = (Inr (True, n, u), w')"
  using assms
  by (auto simp: upsert_to_snowflake_alternative_def split: if_splits sum.splits prod.splits)

text \<open>The cast keeps the number of rows, and keeps distinct ids distinct.\<close>

lemma sint_inject: "sint (a :: 64 word) = sint b \<Longrightarrow> a = b"
  by (rule signed_word_eqI)

lemma convert_length:
  "convert_dataframe_types df = Inr dfx \<Longrightarrow> length dfx = length (frame_rows df)"
  by (cases df) (auto split: if_splits)

lemma convert_nonempty:
  "convert_dataframe_types df = Inr dfx \<Longrightarrow> frame_rows df \<noteq> [] \<Longrightarrow> dfx \<noteq> []"
  using convert_length[of df dfx] by auto

lemma convert_distinct:
  assumes "convert_dataframe_types df = Inr dfx" "distinct (delivery_ids (frame_rows df))"
  shows "distinct (delivery_ids dfx)"
proof (cases df)
  case (Int64Frame rs)
  with assms show ?thesis by auto
next
  case (UInt64Frame rs)
  with assms(2) have "distinct (map (\<lambda>r. uint (fst r)) rs)"
    by (simp add: delivery_ids_def comp_def)
  then have "distinct (map fst rs)"
    by (simp add: distinct_map inj_on_def)
  then have "distinct (map (\<lambda>r. sint (fst r)) rs)"
    by (auto simp: distinct_map inj_on_def intro: sint_inject)
  with UInt64Frame assms(1) show ?thesis
    by (auto simp: delivery_ids_def comp_def)
next
  case (ObjectFrame rs)
  with assms show ?thesis by (auto split: if_splits)
qed


lemma set_unique_ids: "set (unique_ids xs) = set xs"
  by (induction xs rule: unique_ids.induct) auto

lemma concat_batches: "0 < n \<Longrightarrow> concat (batches n xs) = xs"
proof (induction n xs rule: batches.induct)
  case (1 n xs)
  show ?case
  proof (cases "xs = []")
    case True
    then show ?thesis by (subst batches.simps) simp
  next
    case False
    with 1 have "concat (batches n (drop n xs)) = drop n xs" by simp
    with False 1(2) show ?thesis
      by (subst batches.simps) simp
  qed
qed

lemma delete_batches_table:
  "delete_batches env bs acc w = (Inr c, w') \<Longrightarrow> fact_table w = Some t \<Longrightarrow>
     fact_table w' = Some (filter (\<lambda>r. fst r \<notin> set (concat bs)) t)"
proof (induction bs arbitrary: acc w t)
  case Nil
  then show ?case by simp
next
  case (Cons b bs)
  from Cons.prems have nr: "\<not> rejects env DeleteRows"
    by (auto split: if_splits)
  let ?w1 = "(send DeleteRows w)\<lparr>fact_table := Some (filter (\<lambda>r. fst r \<notin> set b) t)\<rparr>"
  from Cons.prems nr
  have "delete_batches env bs (acc + int (length (filter (\<lambda>r. fst r \<in> set b) t))) ?w1 = (Inr c, w')"
    by simp
  from Cons.IH[OF this, of "filter (\<lambda>r. fst r \<notin> set b) t"]
  have "fact_table w' = Some (filter (\<lambda>r. fst r \<notin> set (concat bs)) (filter (\<lambda>r. fst r \<notin> set b) t))"
    by simp
  moreover have "filter (\<lambda>r. fst r \<notin> set (concat bs)) (filter (\<lambda>r. fst r \<notin> set b) t)
        = filter (\<lambda>r. fst r \<notin> set (concat (b # bs))) t"
    by (auto intro: filter_cong)
  ultimately show ?case by simp
qed

lemma insert_rows_Inr:
  "insert_rows env rows w = (Inr u, w') \<Longrightarrow> fact_table w = Some t \<Longrightarrow>
     fact_table w' = Some (t @ rows)"
  by (auto simp: insert_rows_def send_def split: if_splits)

lemma alternative_try_True:
  assumes "alternative_try env dfx w = (Inr (True, n, u), w')" "dfx \<noteq> []"
  shows "\<exists>t. fact_table w = Some t
           \<and> fact_table w' =
               Some (filter (\<lambda>r. fst r \<notin> set (delivery_ids (update_df (set (delivery_ids t)) dfx))) t
                     @ new_df (set (delivery_ids t)) dfx @ update_df (set (delivery_ids t)) dfx)
           \<and> n = int (length (new_df (set (delivery_ids t)) dfx))
           \<and> u = int (length (update_df (set (delivery_ids t)) dfx))"
proof -
  from assms(1) obtain new upd w2 where s: "separate_records env dfx w = (Inr (new, upd), w2)"
    by (auto simp: alternative_try_def split: sum.splits prod.splits)
  from separate_records_Inr[OF s] obtain tt where
    tt: "fact_table w = Some tt" "fact_table w2 = Some tt"
    and nu: "new = new_df (set (delivery_ids tt)) dfx" "upd = update_df (set (delivery_ids tt)) dfx"
    by blast
  let ?del = "if 0 < length upd
              then delete_batches env (batches 500 (unique_ids (delivery_ids upd))) 0 w2
              else (Inr 0, w2)"
  from assms(1) s obtain uc w3 where d: "?del = (Inr uc, w3)"
    by (auto simp: alternative_try_def Let_def split: sum.splits prod.splits)
  have t3: "fact_table w3 = Some (filter (\<lambda>r. fst r \<notin> set (delivery_ids upd)) tt)"
  proof (cases "0 < length upd")
    case True
    with d have "delete_batches env (batches 500 (unique_ids (delivery_ids upd))) 0 w2 = (Inr uc, w3)"
      by simp
    from delete_batches_table[OF this tt(2)] show ?thesis
      by (simp add: concat_batches set_unique_ids)
  next
    case False
    with d tt show ?thesis by (simp add: delivery_ids_def)
  qed
  have nonempty: "0 < length (new @ upd)"
    using staged_nonempty[OF assms(2)] nu by auto
  from assms(1) s d nonempty obtain w4 where i: "insert_rows env (new @ upd) w3 = (Inr (), w4)"
    by (auto simp: alternative_try_def Let_def split: sum.splits prod.splits if_splits)
  from assms(1) s d nonempty i obtain ca where f: "count_records_in_snowflake env w4 = (Inr ca, w')"
    and cnt: "n = int (length new)" "u = int (length upd)"
    by (auto simp: alternative_try_def Let_def split: sum.splits prod.splits if_splits)
  from insert_rows_Inr[OF i t3] count_records_fact_table[OF f] tt nu cnt show ?thesis
    by simp
qed

lemma find_filter_none: "k \<in> E \<Longrightarrow> find (\<lambda>s. fst s = k) (filter (\<lambda>r. fst r \<notin> E) df) = None"
  by (induction df) auto

lemma find_filter_in: "k \<in> E \<Longrightarrow> find (\<lambda>s. fst s = k) (filter (\<lambda>r. fst r \<in> E) df) = find (\<lambda>s. fst s = k) df"
  by (induction df) auto

lemma find_append_none: "find P xs = None \<Longrightarrow> find P (xs @ ys) = find P ys"
  by (induction xs) (auto split: if_splits)

lemma find_staged:
  "k \<in> E \<Longrightarrow> find (\<lambda>s. fst s = k) (new_df E df @ update_df E df) = find (\<lambda>s. fst s = k) df"
  by (simp add: new_df_filter update_df_filter find_append_none find_filter_none find_filter_in)

lemma merge_row_staged:
  "fst t \<in> E \<Longrightarrow> merge_row (new_df E df @ update_df E df) t = merge_row df t"
  by (simp add: merge_row_def find_staged)

lemma fst_merge_row: "fst (merge_row src t) = fst t"
  by (simp add: merge_row_def split: option.splits)

lemma merge_row_cases:
  "(fst t \<notin> fst ` set src \<and> merge_row src t = t) \<or> (fst t \<in> fst ` set src \<and> merge_row src t \<in> set src)"
proof (cases "find (\<lambda>s. fst s = fst t) src")
  case None
  then have "\<not> (\<exists>s. s \<in> set src \<and> fst s = fst t)" by (rule iffD1[OF find_None_iff])
  then have "\<forall>s\<in>set src. fst s \<noteq> fst t" by blast
  then have "fst t \<notin> fst ` set src" by (auto simp: image_iff)
  moreover have "merge_row src t = t" using None by (simp add: merge_row_def)
  ultimately show ?thesis by simp
next
  case (Some s)
  then have s: "s \<in> set src" "fst s = fst t"
    by (auto simp: find_Some_iff)
  have "(fst t, snd s) = s" by (simp add: s(2)[symmetric])
  then have "merge_row src t = s" using Some by (simp add: merge_row_def)
  moreover have "fst t \<in> fst ` set src" using s by (metis image_eqI)
  ultimately show ?thesis using s by simp
qed

lemma inserted_staged:
  "filter (\<lambda>s. fst s \<notin> E) (new_df E df @ update_df E df) = new_df E df"
  by (simp add: new_df_filter update_df_filter)

lemma set_staged: "set (new_df E df @ update_df E df) = set df"
  by (auto simp: new_df_filter update_df_filter)

lemma mset_staged: "mset (new_df E df @ update_df E df) = mset df"
  by (simp add: new_df_filter update_df_filter union_commute)

lemma length_staged: "length (new_df E df) + length (update_df E df) = length df"
  using arg_cong[OF mset_staged, of size E df] by simp

lemma merge_into_staged:
  assumes "merge_into t (new_df (set (delivery_ids t)) df @ update_df (set (delivery_ids t)) df) = Some (t', a)"
  shows "t' = map (merge_row df) t @ new_df (set (delivery_ids t)) df"
    and "a = int (length (filter (\<lambda>r. fst r \<in> set (delivery_ids df)) t)) + int (length (new_df (set (delivery_ids t)) df))"
proof -
  let ?E = "set (delivery_ids t)"
  have m: "map (merge_row (new_df ?E df @ update_df ?E df)) t = map (merge_row df) t"
    by (rule map_cong) (auto simp: merge_row_staged delivery_ids_def)
  have ids: "set (delivery_ids (new_df ?E df @ update_df ?E df)) = set (delivery_ids df)"
    using set_staged[of ?E df] unfolding delivery_ids_def by (metis set_map)
  from assms show "t' = map (merge_row df) t @ new_df ?E df"
    unfolding merge_into_def m inserted_staged by (simp split: if_splits)
  from assms show "a = int (length (filter (\<lambda>r. fst r \<in> set (delivery_ids df)) t)) + int (length (new_df ?E df))"
    unfolding merge_into_def ids inserted_staged by (simp split: if_splits)
qed

lemma ids_merged:
  "set (delivery_ids (map (merge_row df) t @ new_df (set (delivery_ids t)) df))
     = set (delivery_ids t) \<union> set (delivery_ids df)"
  by (auto simp: delivery_ids_def fst_merge_row new_df_filter image_iff)

lemma rows_merged:
  assumes "r \<in> set (map (merge_row df) t @ new_df E df)" "fst r \<in> set (delivery_ids df)"
  shows "r \<in> set df"
proof (cases "r \<in> set (new_df E df)")
  case True
  then show ?thesis by (simp add: new_df_filter)
next
  case False
  with assms obtain x where x: "x \<in> set t" "r = merge_row df x" by auto
  with assms(2) have "fst x \<in> fst ` set df" by (simp add: fst_merge_row delivery_ids_def)
  with merge_row_cases[of x df] x show ?thesis by auto
qed

lemma distinct_merged:
  assumes "distinct (delivery_ids t)" "distinct (delivery_ids df)"
  shows "distinct (delivery_ids (map (merge_row df) t @ new_df (set (delivery_ids t)) df))"
proof -
  have 1: "delivery_ids (map (merge_row df) t) = delivery_ids t"
    by (simp add: delivery_ids_def fst_merge_row comp_def)
  have 2: "distinct (delivery_ids (new_df (set (delivery_ids t)) df))"
    using assms(2) by (simp add: delivery_ids_def new_df_filter distinct_map_filter)
  have 3: "set (delivery_ids t) \<inter> set (delivery_ids (new_df (set (delivery_ids t)) df)) = {}"
    by (auto simp: delivery_ids_def new_df_filter image_iff)
  have "delivery_ids (map (merge_row df) t @ new_df (set (delivery_ids t)) df)
      = delivery_ids t @ delivery_ids (new_df (set (delivery_ids t)) df)"
    using 1 by (simp add: delivery_ids_def)
  with assms(1) 2 3 show ?thesis by simp
qed

lemma no_conflict_distinct:
  assumes "distinct (delivery_ids src)"
  shows "\<not> merge_conflict t src"
proof -
  have "length (filter (\<lambda>s. fst s = k) src) \<le> 1" for k
    using assms
  proof (induction src)
    case Nil
    then show ?case by simp
  next
    case (Cons s src)
    show ?case
    proof (cases "fst s = k")
      case True
      with Cons.prems have "filter (\<lambda>s. fst s = k) src = []"
        by (auto simp: delivery_ids_def filter_empty_conv image_iff)
      with True show ?thesis by simp
    next
      case False
      with Cons show ?thesis by (simp add: delivery_ids_def)
    qed
  qed
  then show ?thesis
    by (auto simp: merge_conflict_def list_ex_iff not_less)
qed

lemma distinct_staged:
  "distinct (delivery_ids df) \<Longrightarrow> distinct (delivery_ids (new_df E df @ update_df E df))"
  by (auto simp: delivery_ids_def new_df_filter update_df_filter distinct_map_filter)

lemma same_key_same_row:
  "distinct (delivery_ids xs) \<Longrightarrow> r \<in> set xs \<Longrightarrow> s \<in> set xs \<Longrightarrow> fst r = fst s \<Longrightarrow> r = s"
  unfolding delivery_ids_def by (meson distinct_map inj_onD)

lemma merge_row_own:
  assumes "distinct (delivery_ids src)" "r \<in> set src"
  shows "merge_row src r = r"
proof -
  from assms(2) have "fst r \<in> fst ` set src" by (rule imageI)
  with merge_row_cases[of r src] have "merge_row src r \<in> set src" by blast
  from same_key_same_row[OF assms(1) this assms(2)] show ?thesis
    by (simp add: fst_merge_row)
qed

lemma merge_row_absent: "fst r \<notin> fst ` set src \<Longrightarrow> merge_row src r = r"
  using merge_row_cases[of r src] by blast

lemma length_matched:
  assumes "distinct (delivery_ids t)" "distinct (delivery_ids df)"
    "set (delivery_ids df) \<subseteq> set (delivery_ids t)"
  shows "length (filter (\<lambda>r. fst r \<in> set (delivery_ids df)) t) = length df"
proof -
  let ?S = "set (delivery_ids df)"
  have "length (filter (\<lambda>r. fst r \<in> ?S) t) = length (filter (\<lambda>k. k \<in> ?S) (delivery_ids t))"
    by (simp add: delivery_ids_def filter_map comp_def)
  also have "\<dots> = card (set (filter (\<lambda>k. k \<in> ?S) (delivery_ids t)))"
    using assms(1) distinct_card[of "filter (\<lambda>k. k \<in> ?S) (delivery_ids t)"] by simp
  also have "set (filter (\<lambda>k. k \<in> ?S) (delivery_ids t)) = ?S"
    using assms(3) by auto
  also have "card ?S = length (delivery_ids df)"
    using assms(2) by (simp add: distinct_card)
  finally show ?thesis by (simp add: delivery_ids_def)
qed

lemma upsert_try_env:
  assumes "upsert_try env dfx w = (Inr (True, n, u), w')" "dfx \<noteq> []"
  shows "\<not> rejects env SelectIds \<and> \<not> rejects env CreateTempTable \<and> \<not> rejects env StageRows
     \<and> \<not> rejects env SelectCount \<and> \<not> rejects env MergeInto \<and> \<not> rejects env DropTempTable"
proof -
  from assms(1) obtain new upd w2 where s: "separate_records env dfx w = (Inr (new, upd), w2)"
    by (auto simp: upsert_try_def split: sum.splits prod.splits)
  from separate_records_Inr[OF s] have nu: "new = new_df (set (delivery_ids (the (fact_table w)))) dfx"
    "upd = update_df (set (delivery_ids (the (fact_table w)))) dfx" and ri: "\<not> rejects env SelectIds"
    by auto
  from staged_nonempty[OF assms(2)] nu have "0 < length upd \<or> 0 < length new" by simp
  with assms(1) s have r1: "\<not> rejects env CreateTempTable" "\<not> rejects env StageRows"
    and m: "merge_transaction env (new @ upd)
             (send StageRows (send CreateTempTable w2)) = (Inr (True, n, u), w')"
    by (auto simp: upsert_try_def Let_def split: if_splits)
  from m have "\<not> rejects env SelectCount \<and> \<not> rejects env MergeInto \<and> \<not> rejects env DropTempTable"
    by (auto simp: merge_transaction_def Let_def split: if_splits option.splits)
  with r1 ri show ?thesis by blast
qed

text \<open>The statements of the primary path, in the order in which a successful run sends them.\<close>

lemma upsert_try_eval:
  assumes "dfx \<noteq> []" "get_snowflake_connection env = Inr ()"
    "\<not> rejects env SelectIds" "\<not> rejects env CreateTempTable" "\<not> rejects env StageRows"
    "\<not> rejects env SelectCount" "\<not> rejects env MergeInto" "\<not> rejects env DropTempTable"
    "fact_table w = Some t"
    "merge_into t (new_df (set (delivery_ids t)) dfx @ update_df (set (delivery_ids t)) dfx) = Some (t', a)"
  shows "separate_records env dfx w
           = (Inr (new_df (set (delivery_ids t)) dfx, update_df (set (delivery_ids t)) dfx),
              send SelectIds (send SelectCount w))"
    and "\<exists>w'. upsert_try env dfx w
            = (Inr (True, int (length t') - int (length t),
                     a - (int (length t') - int (length t))), w')
          \<and> fact_table w' = Some t'"
proof -
  let ?E = "set (delivery_ids t)"
  have c: "count_records_in_snowflake env w = (Inr (int (length t)), send SelectCount w)"
    using assms by (simp add: count_records_in_snowflake_def select_count_def)
  have e: "select_ids env (send SelectCount w) = (Inr ?E, send SelectIds (send SelectCount w))"
    using assms by (simp add: select_ids_def send_def)
  show s: "separate_records env dfx w
           = (Inr (new_df ?E dfx, update_df ?E dfx), send SelectIds (send SelectCount w))"
    by (simp add: separate_records_def c e)
  let ?w3 = "send StageRows (send CreateTempTable (send SelectIds (send SelectCount w)))"
  have ft: "fact_table ?w3 = Some t" using assms(9) by (simp add: send_def)
  have m: "\<exists>w'. merge_transaction env (new_df ?E dfx @ update_df ?E dfx) ?w3
           = (Inr (True, int (length t') - int (length t),
                     a - (int (length t') - int (length t))), w') \<and> fact_table w' = Some t'"
    unfolding merge_transaction_def using assms(6,7,8,10) ft
    by (simp add: Let_def)
  have "upsert_try env dfx w = merge_transaction env (new_df ?E dfx @ update_df ?E dfx) ?w3"
    unfolding upsert_try_def using s staged_nonempty[OF assms(1), of ?E] assms(4,5)
    by (simp add: Let_def)
  with m show "\<exists>w'. upsert_try env dfx w
            = (Inr (True, int (length t') - int (length t),
                     a - (int (length t') - int (length t))), w')
          \<and> fact_table w' = Some t'"
    by simp
qed

lemma second_merge:
  assumes "distinct (delivery_ids df)" "distinct (delivery_ids t)"
  defines "t1 \<equiv> map (merge_row df) t @ new_df (set (delivery_ids t)) df"
  shows "merge_into t1 (new_df (set (delivery_ids t1)) df @ update_df (set (delivery_ids t1)) df)
           = Some (t1, int (length df))"
proof -
  let ?E1 = "set (delivery_ids t1)"
  have ids1: "?E1 = set (delivery_ids t) \<union> set (delivery_ids df)"
    unfolding t1_def by (rule ids_merged)
  have d1: "distinct (delivery_ids t1)"
    unfolding t1_def by (rule distinct_merged[OF assms(2,1)])
  have sub: "set (delivery_ids df) \<subseteq> ?E1" using ids1 by simp
  have n: "new_df ?E1 df = []"
    using sub by (auto simp: new_df_filter filter_empty_conv delivery_ids_def)
  have u: "update_df ?E1 df = df"
    using sub by (auto simp: update_df_filter filter_id_conv delivery_ids_def)
  have nc: "\<not> merge_conflict t1 df" by (rule no_conflict_distinct[OF assms(1)])
  have same: "map (merge_row df) t1 = t1"
  proof (rule map_idI)
    fix r assume r: "r \<in> set t1"
    show "merge_row df r = r"
    proof (cases "fst r \<in> set (delivery_ids df)")
      case True
      with r have "r \<in> set df" unfolding t1_def by (rule rows_merged)
      then show ?thesis by (rule merge_row_own[OF assms(1)])
    next
      case False
      then show ?thesis by (simp add: merge_row_absent delivery_ids_def)
    qed
  qed
  have ins: "filter (\<lambda>s. fst s \<notin> ?E1) df = []"
    using sub by (auto simp: filter_empty_conv delivery_ids_def)
  have len: "length (filter (\<lambda>r. fst r \<in> set (delivery_ids df)) t1) = length df"
    by (rule length_matched[OF d1 assms(1) sub])
  show ?thesis
    unfolding n u by (simp add: merge_into_def nc same ins len)
qed

subsection \<open>Reconciliation\<close>

lemmas upsert_defs = upsert_to_snowflake_def upsert_try_def separate_records_def
  merge_transaction_def count_records_in_snowflake_def select_count_def select_ids_def
  get_snowflake_connection_def send_def new_df_filter update_df_filter merge_into_def
  merge_conflict_def merge_row_def delivery_ids_def working_def Let_def

lemmas alternative_defs = upsert_to_snowflake_alternative_def alternative_try_def
  insert_rows_def batches.simps

lemma merge_conflict_staged:
  "merge_conflict t (new_df E dfx @ update_df E dfx) = merge_conflict t dfx"
proof -
  have "length (filter P (new_df E dfx @ update_df E dfx)) = length (filter P dfx)" for P
    using arg_cong[OF mset_staged[of E dfx], of "\<lambda>m. size (filter_mset P m)"]
    by (simp only: mset_filter[symmetric] size_mset)
  then show ?thesis by (simp only: merge_conflict_def)
qed

text \<open>Every successful run of the primary path meets the following conditions.\<close>

lemma successful_run_conditions:
  assumes "upsert_to_snowflake env df w = (Inr (True, n, u), w')"
  shows "\<exists>dfx t. convert_dataframe_types df = Inr dfx \<and> frame_rows df \<noteq> []
           \<and> get_snowflake_connection env = Inr ()
           \<and> list_all (\<lambda>s. \<not> rejects env s)
                [SelectCount, SelectIds, CreateTempTable, StageRows, MergeInto, DropTempTable]
           \<and> fact_table w = Some t \<and> \<not> merge_conflict t dfx"
proof -
  from upsert_frame_True[OF assms] obtain dfx where
    cv: "convert_dataframe_types df = Inr dfx" and fne: "frame_rows df \<noteq> []"
    and conn: "get_snowflake_connection env = Inr ()"
    and run: "upsert_try env dfx w = (Inr (True, n, u), w')"
    by blast
  have ne: "dfx \<noteq> []" by (rule convert_nonempty[OF cv fne])
  from upsert_try_env[OF run ne]
  have acc: "list_all (\<lambda>s. \<not> rejects env s)
       [SelectCount, SelectIds, CreateTempTable, StageRows, MergeInto, DropTempTable]"
    by simp
  from upsert_try_True[OF run ne] obtain t t' a where
    t: "fact_table w = Some t"
    and m: "merge_into t (new_df (set (delivery_ids t)) dfx @ update_df (set (delivery_ids t)) dfx)
              = Some (t', a)"
    by blast
  from m have "\<not> merge_conflict t (new_df (set (delivery_ids t)) dfx @ update_df (set (delivery_ids t)) dfx)"
    by (auto simp: merge_into_def split: if_splits)
  then have "\<not> merge_conflict t dfx" by (simp add: merge_conflict_staged)
  with cv fne conn acc t show ?thesis by blast
qed


text \<open>
  Claim C1, amended. If the batch has pairwise distinct ids, the table had pairwise
  distinct ids before the first run, and the first primary upsert succeeded, then a second
  run with the same batch in the same environment succeeds with no new rows and
  \<open>len(batch)\<close> updated rows, and leaves the table as it was.
\<close>

theorem idempotence:
  assumes "distinct (delivery_ids (frame_rows df))" "fact_table w = Some t"
    "distinct (delivery_ids t)"
    "upsert_to_snowflake env df w = (Inr (True, n, u), w1)"
  shows "\<exists>w2. upsert_to_snowflake env df w1
                 = (Inr (True, 0, int (length (frame_rows df))), w2)
            \<and> fact_table w2 = fact_table w1"
proof -
  from upsert_frame_True[OF assms(4)] obtain dfx where
    cv: "convert_dataframe_types df = Inr dfx" and fne: "frame_rows df \<noteq> []"
    and conn: "get_snowflake_connection env = Inr ()"
    and run: "upsert_try env dfx w = (Inr (True, n, u), w1)"
    by blast
  have ne: "dfx \<noteq> []" by (rule convert_nonempty[OF cv fne])
  have dd: "distinct (delivery_ids dfx)" by (rule convert_distinct[OF cv assms(1)])
  from upsert_try_True[OF run ne] assms(2) obtain t' a where
    t1: "fact_table w1 = Some t'"
    and m: "merge_into t (new_df (set (delivery_ids t)) dfx @ update_df (set (delivery_ids t)) dfx) = Some (t', a)"
    by auto
  from merge_into_staged(1)[OF m]
  have t': "t' = map (merge_row dfx) t @ new_df (set (delivery_ids t)) dfx" .
  from second_merge[OF dd assms(3)]
  have m2: "merge_into t' (new_df (set (delivery_ids t')) dfx @ update_df (set (delivery_ids t')) dfx)
           = Some (t', int (length dfx))"
    unfolding t' .
  from upsert_try_env[OF run ne] have rej:
    "\<not> rejects env SelectIds" "\<not> rejects env CreateTempTable" "\<not> rejects env StageRows"
    "\<not> rejects env SelectCount" "\<not> rejects env MergeInto" "\<not> rejects env DropTempTable"
    by simp_all
  from upsert_try_eval(2)[OF ne conn rej t1 m2] obtain w2 where
    "upsert_try env dfx w1 = (Inr (True, 0, int (length dfx)), w2)" "fact_table w2 = Some t'"
    by auto
  with cv fne conn t1 convert_length[OF cv] show ?thesis
    by (simp add: upsert_to_snowflake_def)
qed

lemma distinct_alternative:
  assumes "distinct (delivery_ids t)" "distinct (delivery_ids df)"
  shows "distinct (delivery_ids
           (filter (\<lambda>r. fst r \<notin> set (delivery_ids (update_df (set (delivery_ids t)) df))) t
              @ new_df (set (delivery_ids t)) df @ update_df (set (delivery_ids t)) df))"
proof -
  let ?E = "set (delivery_ids t)"
  let ?keep = "filter (\<lambda>r. fst r \<notin> set (delivery_ids (update_df ?E df))) t"
  have 1: "distinct (delivery_ids ?keep)"
    using assms(1) by (simp add: delivery_ids_def distinct_map_filter)
  have 2: "distinct (delivery_ids (new_df ?E df @ update_df ?E df))"
    by (rule distinct_staged[OF assms(2)])
  have 3: "set (delivery_ids ?keep) \<inter> set (delivery_ids (new_df ?E df @ update_df ?E df)) = {}"
    by (auto simp: delivery_ids_def new_df_filter update_df_filter image_iff)
  have "delivery_ids (?keep @ new_df ?E df @ update_df ?E df)
          = delivery_ids ?keep @ delivery_ids (new_df ?E df @ update_df ?E df)"
    by (simp add: delivery_ids_def)
  with 1 2 3 show ?thesis by (simp only: distinct_append)
qed

text \<open>
  Claim C4, amended. If the table and the batch each have pairwise distinct ids, then
  after a successful upsert by the primary or by the alternative path the table has
  pairwise distinct ids.
\<close>

theorem key_uniqueness:
  assumes "fact_table w = Some t" "distinct (delivery_ids t)"
    "distinct (delivery_ids (frame_rows df))"
    "upsert_to_snowflake env df w = (Inr (True, n, u), w')
     \<or> upsert_to_snowflake_alternative env df w = (Inr (True, n, u), w')"
  shows "\<exists>t'. fact_table w' = Some t' \<and> distinct (delivery_ids t')"
  using assms(4)
proof
  assume p: "upsert_to_snowflake env df w = (Inr (True, n, u), w')"
  from upsert_frame_True[OF p] obtain dfx where
    cv: "convert_dataframe_types df = Inr dfx" and fne: "frame_rows df \<noteq> []"
    and run: "upsert_try env dfx w = (Inr (True, n, u), w')"
    by blast
  have dd: "distinct (delivery_ids dfx)" by (rule convert_distinct[OF cv assms(3)])
  from upsert_try_True[OF run convert_nonempty[OF cv fne]] assms(1) obtain t' a where
    t1: "fact_table w' = Some t'"
    and m: "merge_into t (new_df (set (delivery_ids t)) dfx @ update_df (set (delivery_ids t)) dfx) = Some (t', a)"
    by auto
  from merge_into_staged(1)[OF m] distinct_merged[OF assms(2) dd] t1 show ?thesis by simp
next
  assume f: "upsert_to_snowflake_alternative env df w = (Inr (True, n, u), w')"
  from alternative_frame_True[OF f] obtain dfx where
    cv: "convert_dataframe_types df = Inr dfx" and fne: "frame_rows df \<noteq> []"
    and run: "alternative_try env dfx w = (Inr (True, n, u), w')"
    by blast
  have dd: "distinct (delivery_ids dfx)" by (rule convert_distinct[OF cv assms(3)])
  from alternative_try_True[OF run convert_nonempty[OF cv fne]] assms(1)
    distinct_alternative[OF assms(2) dd] show ?thesis by simp
qed






subsection \<open>Concrete reconciliations\<close>

lemma sample_run:
  "upsert_to_snowflake working (Int64Frame [(2, ''p''), (3, ''q''), (4, ''r''), (5, ''s'')])
       \<lparr>fact_table = Some [(1, ''a''), (2, ''b''), (3, ''c'')], executed = []\<rparr>
     = (Inr (True, 2, 2),
        \<lparr>fact_table = Some [(1, ''a''), (2, ''p''), (3, ''q''), (4, ''r''), (5, ''s'')],
         executed = [SelectCount, SelectIds, CreateTempTable, StageRows, SelectCount, MergeInto,
                     DropTempTable, SelectCount]\<rparr>)"
  by (simp add: upsert_defs)



theorem idempotence_witness:
  "\<exists>w2. upsert_to_snowflake working (Int64Frame [(2, ''p''), (3, ''q''), (4, ''r''), (5, ''s'')])
       \<lparr>fact_table = Some [(1, ''a''), (2, ''p''), (3, ''q''), (4, ''r''), (5, ''s'')],
         executed = [SelectCount, SelectIds, CreateTempTable, StageRows, SelectCount, MergeInto,
                     DropTempTable, SelectCount]\<rparr>
       = (Inr (True, 0, 4), w2)
     \<and> fact_table w2 = Some [(1, ''a''), (2, ''p''), (3, ''q''), (4, ''r''), (5, ''s'')]"
proof -
  have d: "distinct (delivery_ids (frame_rows
             (Int64Frame [(2, ''p''), (3, ''q''), (4, ''r''), (5, ''s'')])))"
    by (simp add: delivery_ids_def)
  have f: "fact_table \<lparr>fact_table = Some [(1::int, ''a''), (2, ''b''), (3, ''c'')], executed = []\<rparr>
            = Some [(1, ''a''), (2, ''b''), (3, ''c'')]"
    by simp
  have dt: "distinct (delivery_ids [(1::int, ''a''), (2, ''b''), (3, ''c'')])"
    by (simp add: delivery_ids_def)
  from idempotence[OF d f dt sample_run] show ?thesis by simp
qed

text \<open>
  The table has no key constraint. Upserting a batch that repeats id 1 into an empty table
  stores both rows; a batch with the single id 1 then updates both of them, and the second
  run of that batch reports two updated rows for a batch of length one.
\<close>

theorem idempotence_counterexample:
  "fact_table (snd (upsert_to_snowflake working (Int64Frame [(1, ''a''), (1, ''b'')])
                      \<lparr>fact_table = Some [], executed = []\<rparr>))
     = Some [(1, ''a''), (1, ''b'')]
   \<and> distinct (delivery_ids (frame_rows (Int64Frame [(1, ''c'')])))
   \<and> fst (upsert_to_snowflake working (Int64Frame [(1, ''c'')])
            (snd (upsert_to_snowflake working (Int64Frame [(1, ''a''), (1, ''b'')])
                    \<lparr>fact_table = Some [], executed = []\<rparr>)))
     = Inr (True, 0, 2)
   \<and> fst (upsert_to_snowflake working (Int64Frame [(1, ''c'')])
            (snd (upsert_to_snowflake working (Int64Frame [(1, ''c'')])
                    (snd (upsert_to_snowflake working (Int64Frame [(1, ''a''), (1, ''b'')])
                            \<lparr>fact_table = Some [], executed = []\<rparr>)))))
     = Inr (True, 0, 2)
   \<and> (2::int) \<noteq> int (length (frame_rows (Int64Frame [(1, ''c'')])))"
  by (simp add: upsert_defs)

text \<open>
  A batch that repeats a new id is inserted row by row on either path, and rows stored
  twice that the batch does not touch stay stored twice.
\<close>

theorem key_uniqueness_counterexample:
  "upsert_to_snowflake working (Int64Frame [(7, ''x''), (7, ''y'')])
        \<lparr>fact_table = Some [], executed = []\<rparr>
     = (Inr (True, 2, 0),
        \<lparr>fact_table = Some [(7, ''x''), (7, ''y'')],
         executed = [SelectCount, SelectIds, CreateTempTable, StageRows, SelectCount, MergeInto,
                     DropTempTable, SelectCount]\<rparr>)
   \<and> upsert_to_snowflake_alternative working (Int64Frame [(7, ''x''), (7, ''y'')])
        \<lparr>fact_table = Some [], executed = []\<rparr>
     = (Inr (True, 2, 0),
        \<lparr>fact_table = Some [(7, ''x''), (7, ''y'')],
         executed = [SelectCount, SelectIds, InsertRows, SelectCount]\<rparr>)
   \<and> \<not> distinct (delivery_ids [(7::int, ''x''), (7, ''y'')])
   \<and> upsert_to_snowflake working (Int64Frame [(2, ''p'')])
        \<lparr>fact_table = Some [(1, ''a''), (1, ''b'')], executed = []\<rparr>
     = (Inr (True, 1, 0),
        \<lparr>fact_table = Some [(1, ''a''), (1, ''b''), (2, ''p'')],
         executed = [SelectCount, SelectIds, CreateTempTable, StageRows, SelectCount, MergeInto,
                     DropTempTable, SelectCount]\<rparr>)
   \<and> \<not> distinct (delivery_ids [(1::int, ''a''), (1, ''b''), (2, ''p'')])"
  by (simp add: upsert_defs alternative_defs)

theorem key_uniqueness_witness:
  "distinct (delivery_ids [(1::int, ''a''), (2, ''p''), (3, ''q''), (4, ''r''), (5, ''s'')])"
proof -
  have f: "fact_table \<lparr>fact_table = Some [(1::int, ''a''), (2, ''b''), (3, ''c'')], executed = []\<rparr>
            = Some [(1, ''a''), (2, ''b''), (3, ''c'')]"
    by simp
  have dt: "distinct (delivery_ids [(1::int, ''a''), (2, ''b''), (3, ''c'')])"
    by (simp add: delivery_ids_def)
  have d: "distinct (delivery_ids (frame_rows
             (Int64Frame [(2, ''p''), (3, ''q''), (4, ''r''), (5, ''s'')])))"
    by (simp add: delivery_ids_def)
  from key_uniqueness[OF f dt d disjI1[OF sample_run]] show ?thesis by simp
qed



section \<open>Properties of the transformation module\<close>

subsection \<open>Masks and row conditions\<close>

lemma map2_map: "map2 f (map g xs) (map h xs) = map (\<lambda>x. f (g x) (h x)) xs"
  by (induction xs) auto

lemma mask_and_map: "mask_and (map p df) (map q df) = map (\<lambda>r. p r \<and> q r) df"
  by (simp add: mask_and_def map2_map)

lemma mask_or_map: "mask_or (map p df) (map q df) = map (\<lambda>r. p r \<or> q r) df"
  by (simp add: mask_or_def map2_map)

lemma series_gt_map: "series_gt (map f df) c = map (\<lambda>r. cell_satisfies (f r) (\<lambda>x. c < x)) df"
  by (simp add: series_gt_def cell_satisfies_def comp_def)

lemma series_lt_map: "series_lt (map f df) c = map (\<lambda>r. cell_satisfies (f r) (\<lambda>x. x < c)) df"
  by (simp add: series_lt_def cell_satisfies_def comp_def)

lemma series_ge_map: "series_ge (map f df) c = map (\<lambda>r. cell_satisfies (f r) (\<lambda>x. c \<le> x)) df"
  by (simp add: series_ge_def cell_satisfies_def comp_def)

lemma notna_map: "notna (map f df) = map (\<lambda>r. f r \<noteq> None) df"
  by (simp add: notna_def comp_def)

lemma datetime_ge_map:
  "datetime_ge (map f df) (map g df)
     = map (\<lambda>r. case f r of None \<Rightarrow> False
                 | Some d \<Rightarrow> (case g r of None \<Rightarrow> False | Some s \<Rightarrow> s \<le> d)) df"
  by (simp add: datetime_ge_def map2_map)

lemma mask_sum_map: "mask_sum (map p df) = length (filter p df)"
  by (induction df) (auto simp: mask_sum_def)

lemma cell_satisfies_conj: "(cell_satisfies v P \<and> cell_satisfies v Q) = cell_satisfies v (\<lambda>x. P x \<and> Q x)"
  by (simp add: cell_satisfies_def split: option.splits)

lemma cell_satisfies_disj: "(cell_satisfies v P \<or> cell_satisfies v Q) = cell_satisfies v (\<lambda>x. P x \<or> Q x)"
  by (simp add: cell_satisfies_def split: option.splits)

lemma valid_mask_rows: "valid_mask df = map spec_valid_row df"
proof -
  have "valid_mask df = map (\<lambda>r.
      cell_satisfies (delivery_duration_minutes r) (\<lambda>x. 0 < x) \<and> cell_satisfies (delivery_duration_minutes r) (\<lambda>x. x < 1440)
    \<and> cell_satisfies (delivery_distance_km r) (\<lambda>x. 0 < x) \<and> cell_satisfies (delivery_distance_km r) (\<lambda>x. x < 5000)
    \<and> cell_satisfies (package_weight_kg r) (\<lambda>x. 0 \<le> x) \<and> cell_satisfies (package_weight_kg r) (\<lambda>x. x < 10000)
    \<and> cell_satisfies (fuel_efficiency_km_per_liter r) (\<lambda>x. 0 < x) \<and> cell_satisfies (fuel_efficiency_km_per_liter r) (\<lambda>x. x < 50)
    \<and> (case delivered_datetime r of None \<Rightarrow> False
          | Some d \<Rightarrow> (case scheduled_datetime r of None \<Rightarrow> False | Some s \<Rightarrow> s \<le> d))
    \<and> delivery_status r \<noteq> None \<and> vehicle_id r \<noteq> None \<and> driver_id r \<noteq> None) df"
    unfolding valid_mask_def series_gt_map series_lt_map series_ge_map notna_map datetime_ge_map
      mask_and_map ..
  also have "\<dots> = map spec_valid_row df"
    by (rule map_cong) (auto simp: spec_valid_row_def cell_satisfies_def split: option.splits)
  finally show ?thesis .
qed

lemma validate_data_quality_filter: "validate_data_quality df = filter spec_valid_row df"
  by (simp add: validate_data_quality_def valid_mask_rows select_mask_map)

lemmas row_defs = raw_row.defs enriched_row.defs stamped_row.defs scored_row.defs

lemma computed_fields:
  "delivery_duration_minutes (add_computed_columns r)
     = minutes_between (delivered_datetime r) (scheduled_datetime r)"
  "delay_minutes_calculated (add_computed_columns r)
     = minutes_between (delivered_datetime r) (scheduled_datetime r)"
  "on_time_status (add_computed_columns r)
     = (case delay_minutes r of None \<Rightarrow> False | Some m \<Rightarrow> m \<le> 0)"
  "delay_minutes (add_computed_columns r) = delay_minutes r"
  "delivered_datetime (add_computed_columns r) = delivered_datetime r"
  "scheduled_datetime (add_computed_columns r) = scheduled_datetime r"
  by (simp_all add: add_computed_columns_def row_defs)

lemma stamp_fields:
  "delivery_duration_minutes (stamp now r) = delivery_duration_minutes r"
  "delay_minutes_calculated (stamp now r) = delay_minutes_calculated r"
  "on_time_status (stamp now r) = on_time_status r"
  "delay_minutes (stamp now r) = delay_minutes r"
  "delivered_datetime (stamp now r) = delivered_datetime r"
  "scheduled_datetime (stamp now r) = scheduled_datetime r"
  by (simp_all add: stamp_def row_defs)

lemma with_score_fields:
  "delivery_duration_minutes (with_score s r) = delivery_duration_minutes r"
  "delay_minutes_calculated (with_score s r) = delay_minutes_calculated r"
  "on_time_status (with_score s r) = on_time_status r"
  "delay_minutes (with_score s r) = delay_minutes r"
  "delivered_datetime (with_score s r) = delivered_datetime r"
  "scheduled_datetime (with_score s r) = scheduled_datetime r"
  "data_quality_score (with_score s r) = s"
  by (simp_all add: with_score_def row_defs)

lemma transformed_row:
  assumes "r \<in> set (transform_delivery_data now raw_df)"
  obtains x where "x \<in> set raw_df" "spec_valid_row (add_computed_columns x)"
    "r = with_score (calculate_quality_score (validated_batch now raw_df))
           (stamp now (add_computed_columns x))"
proof -
  from assms have "r \<in> with_score (calculate_quality_score (validated_batch now raw_df))
                        ` set (validated_batch now raw_df)"
    by (auto simp: transform_delivery_data_def Let_def split: if_splits)
  then obtain y where y: "y \<in> set (validated_batch now raw_df)"
    "r = with_score (calculate_quality_score (validated_batch now raw_df)) y" by blast
  from y(1) obtain x where "x \<in> set raw_df" "spec_valid_row (add_computed_columns x)"
     "y = stamp now (add_computed_columns x)"
    by (auto simp: validated_batch_def verify_dimension_keys_def validate_data_quality_filter)
  with y(2) that show thesis by blast
qed

lemma valid_datetimes:
  "spec_valid_row r \<Longrightarrow> scheduled_datetime r \<noteq> None \<and> delivered_datetime r \<noteq> None"
  by (auto simp: spec_valid_row_def split: option.splits)

lemma transformed_datetimes:
  "\<forall>r\<in>set (transform_delivery_data now raw_df).
      scheduled_datetime r \<noteq> None \<and> delivered_datetime r \<noteq> None"
proof
  fix r assume "r \<in> set (transform_delivery_data now raw_df)"
  then obtain x where x: "spec_valid_row (add_computed_columns x)"
    "r = with_score (calculate_quality_score (validated_batch now raw_df))
           (stamp now (add_computed_columns x))"
    by (rule transformed_row)
  from valid_datetimes[OF x(1)] x(2)
  show "scheduled_datetime r \<noteq> None \<and> delivered_datetime r \<noteq> None"
    by (simp add: with_score_fields stamp_fields)
qed

text \<open>
  Claim C9. Every row that the Validator keeps, and so every row of the transformed batch,
  has a scheduled and a delivered timestamp: a row not yet delivered is dropped.
\<close>

theorem undelivered_rows_dropped:
  "(\<forall>r\<in>set (validate_data_quality df).
      scheduled_datetime r \<noteq> None \<and> delivered_datetime r \<noteq> None)
   \<and> (\<forall>r\<in>set (transform_delivery_data now raw_df).
      scheduled_datetime r \<noteq> None \<and> delivered_datetime r \<noteq> None)
   \<and> (\<forall>f\<in>set (transform_complete_pipeline now project raw_df).
      \<exists>r. f = project r \<and> scheduled_datetime r \<noteq> None \<and> delivered_datetime r \<noteq> None)"
proof (intro conjI)
  show "\<forall>r\<in>set (validate_data_quality df).
      scheduled_datetime r \<noteq> None \<and> delivered_datetime r \<noteq> None"
  proof
    fix r assume "r \<in> set (validate_data_quality df)"
    then have "spec_valid_row r" by (simp add: validate_data_quality_filter)
    then show "scheduled_datetime r \<noteq> None \<and> delivered_datetime r \<noteq> None"
      by (rule valid_datetimes)
  qed
next
  show "\<forall>r\<in>set (transform_delivery_data now raw_df).
      scheduled_datetime r \<noteq> None \<and> delivered_datetime r \<noteq> None"
    by (rule transformed_datetimes)
next
  show "\<forall>f\<in>set (transform_complete_pipeline now project raw_df).
      \<exists>r. f = project r \<and> scheduled_datetime r \<noteq> None \<and> delivered_datetime r \<noteq> None"
  proof
    fix f assume "f \<in> set (transform_complete_pipeline now project raw_df)"
    then have "f \<in> project ` set (transform_delivery_data now raw_df)"
      by (auto simp: transform_complete_pipeline_def prepare_for_snowflake_def Let_def
            split: if_splits)
    then obtain r where "r \<in> set (transform_delivery_data now raw_df)" "f = project r"
      by blast
    with transformed_datetimes[of now raw_df]
    show "\<exists>r. f = project r \<and> scheduled_datetime r \<noteq> None \<and> delivered_datetime r \<noteq> None"
      by blast
  qed
qed

text \<open>
  Claim C10. Every row of the transformed batch has a scheduled timestamp \<open>s\<close> and a
  delivered timestamp \<open>d\<close>, its two computed columns \<open>delivery_duration_minutes\<close> and
  \<open>delay_minutes_calculated\<close> are both \<open>(d - s) / 60\<close>, and its \<open>on_time_status\<close> is read
  off the upstream column \<open>delay_minutes\<close>.
\<close>

theorem computed_columns_equal:
  "\<forall>r\<in>set (transform_delivery_data now raw_df).
      \<exists>d s. delivered_datetime r = Some d \<and> scheduled_datetime r = Some s
        \<and> delivery_duration_minutes r = Some (real_of_int (d - s) / 60)
        \<and> delay_minutes_calculated r = Some (real_of_int (d - s) / 60)
        \<and> delivery_duration_minutes r = delay_minutes_calculated r
        \<and> on_time_status r = (case delay_minutes r of None \<Rightarrow> False | Some m \<Rightarrow> m \<le> 0)"
proof
  fix r assume "r \<in> set (transform_delivery_data now raw_df)"
  then obtain x where x: "spec_valid_row (add_computed_columns x)"
    "r = with_score (calculate_quality_score (validated_batch now raw_df))
           (stamp now (add_computed_columns x))"
    by (rule transformed_row)
  from valid_datetimes[OF x(1)] obtain d s where
    ds: "delivered_datetime x = Some d" "scheduled_datetime x = Some s"
    by (auto simp: computed_fields)
  with x(2) show "\<exists>d s. delivered_datetime r = Some d \<and> scheduled_datetime r = Some s
        \<and> delivery_duration_minutes r = Some (real_of_int (d - s) / 60)
        \<and> delay_minutes_calculated r = Some (real_of_int (d - s) / 60)
        \<and> delivery_duration_minutes r = delay_minutes_calculated r
        \<and> on_time_status r = (case delay_minutes r of None \<Rightarrow> False | Some m \<Rightarrow> m \<le> 0)"
    by (simp add: with_score_fields stamp_fields computed_fields minutes_between_def)
qed

text \<open>
  Claim C5. The Validator returns exactly the rows that meet all the specified conditions
  and drops (and counts) the others; a distance of 5000 or of 0 is rejected and a distance
  of 4999.99 is accepted.
\<close>

theorem validator_subset:
  "validate_data_quality df = filter spec_valid_row df
   \<and> length (validate_data_quality df) + length (filter (\<lambda>r. \<not> spec_valid_row r) df) = length df
   \<and> validate_data_quality [add_computed_columns (sample_row 1 (Some 900) 5000 (Some 15))] = []
   \<and> validate_data_quality [add_computed_columns (sample_row 1 (Some 900) 0 (Some 15))] = []
   \<and> validate_data_quality [add_computed_columns (sample_row 1 (Some 900) (499999 / 100) (Some 15))]
       = [add_computed_columns (sample_row 1 (Some 900) (499999 / 100) (Some 15))]"
proof -
  have "length (filter spec_valid_row df) + length (filter (\<lambda>r. \<not> spec_valid_row r) df) = length df"
    by (rule sum_length_filter_compl)
  moreover have "\<not> spec_valid_row (add_computed_columns (sample_row 1 (Some 900) 5000 (Some 15)))"
    by (simp add: spec_valid_row_def cell_satisfies_def add_computed_columns_def row_defs sample_row_def)
  moreover have "\<not> spec_valid_row (add_computed_columns (sample_row 1 (Some 900) 0 (Some 15)))"
    by (simp add: spec_valid_row_def cell_satisfies_def add_computed_columns_def row_defs sample_row_def)
  moreover have "spec_valid_row (add_computed_columns (sample_row 1 (Some 900) (499999 / 100) (Some 15)))"
    by (simp add: spec_valid_row_def cell_satisfies_def add_computed_columns_def row_defs sample_row_def
          minutes_between_def)
  ultimately show ?thesis
    by (simp add: validate_data_quality_filter)
qed

subsection \<open>Null cells, by column and by row\<close>

lemma null_count_of_bool:
  "null_count (map c df) = sum_list (map (\<lambda>r. of_bool (c r = None)) df)"
  by (induction df) (simp_all add: null_count_def)

lemma count_true_Cons:
  "length (filter (\<lambda>b. b) (x # xs)) = of_bool x + length (filter (\<lambda>b. b) xs)"
  by simp

lemma count_true_nulls:
  "length (filter (\<lambda>b. b) (map (\<lambda>c. c = None) xs)) = null_count xs"
  by (induction xs) (simp_all add: null_count_def)

lemma row_null_count:
  "length (filter (\<lambda>b. b) (row_cells_null r))
     = of_bool (delivery_id r = None) + of_bool (vehicle_id r = None)
     + of_bool (driver_id r = None) + of_bool (date_key r = None)
     + of_bool (scheduled_datetime r = None) + of_bool (delivered_datetime r = None)
     + of_bool (delivery_distance_km r = None) + of_bool (delivery_fuel_consumed r = None)
     + of_bool (package_weight_kg r = None) + of_bool (fuel_efficiency_km_per_liter r = None)
     + of_bool (delay_minutes r = None) + of_bool (revenue_per_delivery r = None)
     + of_bool (delivery_status r = None) + of_bool (is_on_time r = None)
     + of_bool (delivery_duration_minutes r = None) + of_bool (delay_minutes_calculated r = None)
     + of_bool (fuel_efficiency_calculated r = None)
     + of_bool (revenue_per_delivery_calculated r = None)
     + null_count (other_columns r)"
  unfolding row_cells_null_def filter_append length_append count_true_Cons count_true_nulls
  by simp

lemma named_nulls_by_row:
  "sum_list (named_column_nulls df)
     = sum_list (map (\<lambda>r.
         of_bool (delivery_id r = None) + of_bool (vehicle_id r = None)
       + of_bool (driver_id r = None) + of_bool (date_key r = None)
       + of_bool (scheduled_datetime r = None) + of_bool (delivered_datetime r = None)
       + of_bool (delivery_distance_km r = None) + of_bool (delivery_fuel_consumed r = None)
       + of_bool (package_weight_kg r = None) + of_bool (fuel_efficiency_km_per_liter r = None)
       + of_bool (delay_minutes r = None) + of_bool (revenue_per_delivery r = None)
       + of_bool (delivery_status r = None) + of_bool (is_on_time r = None)
       + of_bool (delivery_duration_minutes r = None) + of_bool (delay_minutes_calculated r = None)
       + of_bool (fuel_efficiency_calculated r = None)
       + of_bool (revenue_per_delivery_calculated r = None)) df)"
  unfolding named_column_nulls_def null_count_of_bool sum_list_addf
  by simp

lemma nulls_by_index:
  "sum_list (map (\<lambda>j. of_bool (xs ! j = None)) [0..<length xs]) = null_count xs"
proof -
  have "map (\<lambda>j. of_bool (xs ! j = None)) [0..<length xs]
          = map (\<lambda>v. of_bool (v = None)) (map (\<lambda>j. xs ! j) [0..<length xs])"
    by simp
  also have "\<dots> = map (\<lambda>v. of_bool (v = None)) xs" by (simp only: map_nth)
  finally have e: "map (\<lambda>j. of_bool (xs ! j = None)) [0..<length xs]
                     = map (\<lambda>v. of_bool (v = None)) xs" .
  show ?thesis
    unfolding e using null_count_of_bool[of "\<lambda>v. v" xs] by simp
qed

lemma null_count_map_Cons:
  "null_count (map f (r # rest)) = of_bool (f r = None) + null_count (map f rest)"
  by (simp add: null_count_def)

lemma carried_nulls_by_row:
  assumes "\<forall>r\<in>set df. length (other_columns r) = k"
  shows "sum_list (map (\<lambda>j. null_count (map (\<lambda>r. other_columns r ! j) df)) [0..<k])
           = sum_list (map (\<lambda>r. null_count (other_columns r)) df)"
  using assms
proof (induction df)
  case Nil
  then show ?case by (simp add: null_count_def)
next
  case (Cons r rest)
  then have k: "length (other_columns r) = k" by simp
  have "sum_list (map (\<lambda>j. null_count (map (\<lambda>r. other_columns r ! j) (r # rest))) [0..<k])
      = sum_list (map (\<lambda>j. of_bool (other_columns r ! j = None)
                          + null_count (map (\<lambda>r. other_columns r ! j) rest)) [0..<k])"
    by (simp only: null_count_map_Cons)
  also have "\<dots> = sum_list (map (\<lambda>j. of_bool (other_columns r ! j = None)) [0..<k])
                 + sum_list (map (\<lambda>j. null_count (map (\<lambda>r. other_columns r ! j) rest)) [0..<k])"
    by (rule sum_list_addf)
  also have "sum_list (map (\<lambda>j. of_bool (other_columns r ! j = None)) [0..<k])
               = null_count (other_columns r)"
    using nulls_by_index[of "other_columns r"] k by simp
  finally show ?case using Cons by simp
qed

lemma carried_width_uniform:
  "df \<noteq> [] \<Longrightarrow> \<forall>r\<in>set df. length (other_columns r) = k \<Longrightarrow> carried_width df = k"
  by (cases df) (auto simp: carried_width_def)

lemma isnull_sum_by_row:
  assumes "df \<noteq> []" "\<forall>r\<in>set df. length (other_columns r) = k"
  shows "isnull_sum df = length (filter (\<lambda>b. b) (concat (map row_cells_null df)))"
proof -
  have "length (filter (\<lambda>b. b) (concat (map row_cells_null df)))
          = sum_list (map (\<lambda>r. length (filter (\<lambda>b. b) (row_cells_null r))) df)"
    by (simp add: filter_concat length_concat comp_def)
  also have "\<dots> = sum_list (named_column_nulls df)
                   + sum_list (map (\<lambda>r. null_count (other_columns r)) df)"
    unfolding row_null_count named_nulls_by_row by (simp only: sum_list_addf)
  also have "sum_list (map (\<lambda>r. null_count (other_columns r)) df)
               = sum_list (carried_column_nulls df)"
    unfolding carried_column_nulls_def carried_width_uniform[OF assms]
    by (rule carried_nulls_by_row[OF assms(2), symmetric])
  finally show ?thesis by (simp add: isnull_sum_def)
qed

lemma cell_total:
  assumes "df \<noteq> []" "\<forall>r\<in>set df. length (other_columns r) = k"
  shows "length df * column_count df = length (concat (map row_cells_null df))"
proof -
  have cc: "column_count df = 20 + k"
    by (simp add: column_count_def named_column_nulls_def carried_column_nulls_def
          carried_width_uniform[OF assms])
  have m: "map (\<lambda>r. length (row_cells_null r)) df = map (\<lambda>r. 20 + k) df"
    by (rule map_cong) (use assms(2) in \<open>auto simp: row_cells_null_def\<close>)
  have "length (concat (map row_cells_null df)) = length df * (20 + k)"
    unfolding length_concat map_map comp_def m by (simp add: sum_list_triv)
  with cc show ?thesis by simp
qed

subsection \<open>The quality score, failures and the empty batch\<close>

lemma extreme_counts:
  "mask_sum (mask_or (series_lt (map f df) lo) (series_gt (map f df) hi))
     = length (filter (\<lambda>r. cell_satisfies (f r) (\<lambda>x. \<not> (lo \<le> x \<and> x \<le> hi))) df)"
proof -
  have "(\<lambda>r. cell_satisfies (f r) (\<lambda>x. x < lo) \<or> cell_satisfies (f r) (\<lambda>x. hi < x))
         = (\<lambda>r. cell_satisfies (f r) (\<lambda>x. \<not> (lo \<le> x \<and> x \<le> hi)))"
    by (auto simp: cell_satisfies_def fun_eq_iff split: option.splits)
  then show ?thesis
    by (simp add: series_lt_map series_gt_map mask_or_map mask_sum_map)
qed

lemma delay_count:
  "mask_sum (series_gt (map f df) c) = length (filter (\<lambda>r. cell_satisfies (f r) (\<lambda>x. c < x)) df)"
  by (simp add: series_gt_map mask_sum_map)

lemma calculate_quality_score_spec:
  assumes "df \<noteq> []" "\<forall>r\<in>set df. length (other_columns r) = k"
  shows "calculate_quality_score df = spec_quality_score df"
proof -
  have nf: "real (isnull_sum df) / real (length df * column_count df) = null_fraction df"
    by (simp only: null_fraction_def isnull_sum_by_row[OF assms] cell_total[OF assms])
  show ?thesis
    unfolding calculate_quality_score_def spec_quality_score_def Let_def nf
      extreme_counts delay_count fraction_def
    by (simp add: mult.commute)
qed

lemma other_columns_validated:
  assumes "\<forall>r\<in>set raw_df. length (other_columns r) = k"
  shows "\<forall>r\<in>set (validated_batch now raw_df). length (other_columns r) = k"
  using assms
  by (auto simp: validated_batch_def verify_dimension_keys_def validate_data_quality_filter
        stamp_def add_computed_columns_def row_defs)

text \<open>
  Claim C6. For a non-empty validated batch whose rows all have the same columns, the
  computed score is the specified one, and every row of the transformed batch carries
  that one value.
\<close>

theorem quality_score_batch_level:
  assumes "validated_batch now raw_df \<noteq> []" "\<forall>r\<in>set raw_df. length (other_columns r) = k"
  shows "calculate_quality_score (validated_batch now raw_df)
           = spec_quality_score (validated_batch now raw_df)
         \<and> (\<forall>r\<in>set (transform_delivery_data now raw_df).
               data_quality_score r = spec_quality_score (validated_batch now raw_df))"
proof -
  have eq: "calculate_quality_score (validated_batch now raw_df)
           = spec_quality_score (validated_batch now raw_df)"
    by (rule calculate_quality_score_spec[OF assms(1) other_columns_validated[OF assms(2)]])
  have "\<forall>r\<in>set (transform_delivery_data now raw_df).
               data_quality_score r = calculate_quality_score (validated_batch now raw_df)"
    by (auto simp: transform_delivery_data_def Let_def with_score_fields split: if_splits)
  with eq show ?thesis by simp
qed










lemma verify_reads_only:
  "verify_snowflake_connection env w = (ok, w1) \<Longrightarrow>
     fact_table w1 = fact_table w \<and> filter mutating (executed w1) = filter mutating (executed w)"
  by (auto simp: verify_snowflake_connection_def send_def split: sum.splits)

text \<open>
  Claim C8. When the extracted batch is empty the orchestrator returns failure, having
  sent no mutating statement and left the table as it was; both upsert functions return
  failure on an empty batch without touching the warehouse.
\<close>

theorem empty_batch_short_circuit:
  assumes "parquet_content ex = Some []"
  shows "fst (run_complete_etl env ex now project w) = False
     \<and> filter mutating (executed (snd (run_complete_etl env ex now project w)))
         = filter mutating (executed w)
     \<and> fact_table (snd (run_complete_etl env ex now project w)) = fact_table w
     \<and> upsert_to_snowflake env (Int64Frame []) w = (Inr (False, 0, 0), w)
     \<and> upsert_to_snowflake env (UInt64Frame []) w = (Inr (False, 0, 0), w)
     \<and> upsert_to_snowflake env (ObjectFrame []) w = (Inr (False, 0, 0), w)
     \<and> upsert_to_snowflake_alternative env (Int64Frame []) w = (Inr (False, 0, 0), w)
     \<and> upsert_to_snowflake_alternative env (UInt64Frame []) w = (Inr (False, 0, 0), w)
     \<and> upsert_to_snowflake_alternative env (ObjectFrame []) w = (Inr (False, 0, 0), w)"
proof -
  obtain ok w1 where v: "verify_snowflake_connection env w = (ok, w1)" by fastforce
  from verify_reads_only[OF v]
  have r: "fact_table w1 = fact_table w"
    "filter mutating (executed w1) = filter mutating (executed w)" by simp_all
  have "run_complete_etl env ex now project w = (False, w)
        \<or> run_complete_etl env ex now project w = (False, w1)"
    using assms v by (cases ok) (simp_all add: run_complete_etl_def)
  with r show ?thesis
    by (auto simp: upsert_to_snowflake_def upsert_to_snowflake_alternative_def)
qed

theorem empty_batch_short_circuit_witness:
  "run_complete_etl working
      \<lparr>staging_exists_before = True, parquet_present_before = True,
       postgres_engine_builds = True, extract_main_result = Some 0, staging_exists_after = True,
       parquet_present_after = True, parquet_content = Some []\<rparr>
      0 (\<lambda>r. (0, ())) \<lparr>fact_table = None, executed = []\<rparr>
    = (False, \<lparr>fact_table = None, executed = [SelectCurrent]\<rparr>)
   \<and> filter mutating [SelectCurrent] = []"
proof -
  have h: "parquet_content \<lparr>staging_exists_before = True, parquet_present_before = True,
       postgres_engine_builds = True, extract_main_result = Some 0, staging_exists_after = True,
       parquet_present_after = True, parquet_content = Some []\<rparr> = Some []"
    by simp
  from empty_batch_short_circuit[OF h, of working 0 "\<lambda>r. (0, ())" "\<lparr>fact_table = None, executed = []\<rparr>"]
  show ?thesis
    by (simp add: run_complete_etl_def verify_snowflake_connection_def
          get_snowflake_connection_def working_def send_def)
qed

section \<open>Concrete batches\<close>

lemmas sample_defs = sample_row_def add_computed_columns_def minutes_between_def stamp_def
  with_score_def row_defs

lemma sample_valid:
  "spec_valid_row (add_computed_columns (sample_row i (Some 3600) 100 delay))"
  by (simp add: spec_valid_row_def cell_satisfies_def sample_defs)

lemma sample_invalid:
  "\<not> spec_valid_row (add_computed_columns (sample_row i None 100 delay))"
  by (simp add: spec_valid_row_def cell_satisfies_def sample_defs)

theorem undelivered_rows_dropped_witness:
  "validate_data_quality
      [add_computed_columns (sample_row 1 None 100 (Some 15)),
       add_computed_columns (sample_row 2 (Some 3600) 100 (Some 15))]
     = [add_computed_columns (sample_row 2 (Some 3600) 100 (Some 15))]
   \<and> delivered_datetime (add_computed_columns (sample_row 1 None 100 (Some 15))) = None
   \<and> scheduled_datetime (add_computed_columns (sample_row 2 (Some 3600) 100 (Some 15))) \<noteq> None
   \<and> delivered_datetime (add_computed_columns (sample_row 2 (Some 3600) 100 (Some 15))) \<noteq> None"
proof -
  have v: "validate_data_quality
      [add_computed_columns (sample_row 1 None 100 (Some 15)),
       add_computed_columns (sample_row 2 (Some 3600) 100 (Some 15))]
     = [add_computed_columns (sample_row 2 (Some 3600) 100 (Some 15))]"
    by (simp add: validate_data_quality_filter sample_valid sample_invalid)
  then have m: "add_computed_columns (sample_row 2 (Some 3600) 100 (Some 15))
      \<in> set (validate_data_quality
      [add_computed_columns (sample_row 1 None 100 (Some 15)),
       add_computed_columns (sample_row 2 (Some 3600) 100 (Some 15))])"
    by simp
  from undelivered_rows_dropped[THEN conjunct1, rule_format, OF m] v show ?thesis
    by (simp add: sample_defs)
qed

text \<open>
  Three deliveries: scheduled at 1800 and delivered at 5400 with an upstream delay of -5;
  scheduled at 0 and delivered at 7200 with no upstream delay; scheduled at 0 and delivered
  at 1200 with an upstream delay of 300 and a stated fuel efficiency of 40.
\<close>

lemma three_valid:
  "spec_valid_row (add_computed_columns
     ((sample_row 1 (Some 5400) 100 (Some (-5)))\<lparr>scheduled_datetime := Some 1800\<rparr>))"
  "spec_valid_row (add_computed_columns (sample_row 2 (Some 7200) 100 None))"
  "spec_valid_row (add_computed_columns
     ((sample_row 3 (Some 1200) 100 (Some 300))\<lparr>fuel_efficiency_km_per_liter := Some 40\<rparr>))"
  by (simp_all add: spec_valid_row_def cell_satisfies_def sample_defs)

lemma three_validated:
  "validated_batch now
     [(sample_row 1 (Some 5400) 100 (Some (-5)))\<lparr>scheduled_datetime := Some 1800\<rparr>,
      sample_row 2 (Some 7200) 100 None,
      (sample_row 3 (Some 1200) 100 (Some 300))\<lparr>fuel_efficiency_km_per_liter := Some 40\<rparr>]
   = [stamp now (add_computed_columns
        ((sample_row 1 (Some 5400) 100 (Some (-5)))\<lparr>scheduled_datetime := Some 1800\<rparr>)),
      stamp now (add_computed_columns (sample_row 2 (Some 7200) 100 None)),
      stamp now (add_computed_columns
        ((sample_row 3 (Some 1200) 100 (Some 300))\<lparr>fuel_efficiency_km_per_liter := Some 40\<rparr>))]"
  by (simp add: validated_batch_def verify_dimension_keys_def validate_data_quality_filter
        three_valid)

theorem computed_columns_equal_witness:
  "map delivery_duration_minutes
     (transform_delivery_data 0
       [(sample_row 1 (Some 5400) 100 (Some (-5)))\<lparr>scheduled_datetime := Some 1800\<rparr>,
        sample_row 2 (Some 7200) 100 None,
        (sample_row 3 (Some 1200) 100 (Some 300))\<lparr>fuel_efficiency_km_per_liter := Some 40\<rparr>])
     = [Some 60, Some 120, Some 20]
   \<and> map delay_minutes_calculated
     (transform_delivery_data 0
       [(sample_row 1 (Some 5400) 100 (Some (-5)))\<lparr>scheduled_datetime := Some 1800\<rparr>,
        sample_row 2 (Some 7200) 100 None,
        (sample_row 3 (Some 1200) 100 (Some 300))\<lparr>fuel_efficiency_km_per_liter := Some 40\<rparr>])
     = [Some 60, Some 120, Some 20]
   \<and> map on_time_status
     (transform_delivery_data 0
       [(sample_row 1 (Some 5400) 100 (Some (-5)))\<lparr>scheduled_datetime := Some 1800\<rparr>,
        sample_row 2 (Some 7200) 100 None,
        (sample_row 3 (Some 1200) 100 (Some 300))\<lparr>fuel_efficiency_km_per_liter := Some 40\<rparr>])
     = [True, False, False]"
proof -
  let ?raw = "[(sample_row 1 (Some 5400) 100 (Some (-5)))\<lparr>scheduled_datetime := Some 1800\<rparr>,
        sample_row 2 (Some 7200) 100 None,
        (sample_row 3 (Some 1200) 100 (Some 300))\<lparr>fuel_efficiency_km_per_liter := Some 40\<rparr>]"
  let ?out = "transform_delivery_data 0 ?raw"
  have out: "?out = map (with_score (calculate_quality_score (validated_batch 0 ?raw)))
      [stamp 0 (add_computed_columns
        ((sample_row 1 (Some 5400) 100 (Some (-5)))\<lparr>scheduled_datetime := Some 1800\<rparr>)),
       stamp 0 (add_computed_columns (sample_row 2 (Some 7200) 100 None)),
       stamp 0 (add_computed_columns
        ((sample_row 3 (Some 1200) 100 (Some 300))\<lparr>fuel_efficiency_km_per_liter := Some 40\<rparr>))]"
    by (simp add: transform_delivery_data_def Let_def three_validated)
  have ts: "map (\<lambda>r. (delivered_datetime r, scheduled_datetime r)) ?out
              = [(Some 5400, Some 1800), (Some 7200, Some 0), (Some 1200, Some 0)]"
    unfolding out by (simp add: sample_defs)
  have dl: "map delay_minutes ?out = [Some (-5), None, Some 300]"
    unfolding out by (simp add: sample_defs)
  from computed_columns_equal[of 0 ?raw]
  have all: "list_all (\<lambda>r. \<exists>d s. delivered_datetime r = Some d \<and> scheduled_datetime r = Some s
        \<and> delivery_duration_minutes r = Some (real_of_int (d - s) / 60)
        \<and> delay_minutes_calculated r = Some (real_of_int (d - s) / 60)
        \<and> delivery_duration_minutes r = delay_minutes_calculated r
        \<and> on_time_status r = (case delay_minutes r of None \<Rightarrow> False | Some m \<Rightarrow> m \<le> 0)) ?out"
    by (simp only: list_all_iff)
  obtain a b c where abc: "?out = [a, b, c]" using out by simp
  from ts dl all show ?thesis
    unfolding abc by auto
qed

theorem quality_score_batch_level_witness:
  "map data_quality_score
     (transform_delivery_data 0
       [(sample_row 1 (Some 5400) 100 (Some (-5)))\<lparr>scheduled_datetime := Some 1800\<rparr>,
        sample_row 2 (Some 7200) 100 None,
        (sample_row 3 (Some 1200) 100 (Some 300))\<lparr>fuel_efficiency_km_per_liter := Some 40\<rparr>])
     = [2705 / 33, 2705 / 33, 2705 / 33]"
proof -
  let ?raw = "[(sample_row 1 (Some 5400) 100 (Some (-5)))\<lparr>scheduled_datetime := Some 1800\<rparr>,
        sample_row 2 (Some 7200) 100 None,
        (sample_row 3 (Some 1200) 100 (Some 300))\<lparr>fuel_efficiency_km_per_liter := Some 40\<rparr>]"
  have ne: "validated_batch 0 ?raw \<noteq> []"
    by (simp add: three_validated)
  have h: "\<forall>r\<in>set ?raw. length (other_columns r) = 2"
    by (simp add: sample_row_def)
  have s: "spec_quality_score (validated_batch 0 ?raw) = 2705 / 33"
    unfolding three_validated
    by (simp add: spec_quality_score_def null_fraction_def fraction_def row_cells_null_def
          cell_satisfies_def sample_defs)
  obtain a b c where abc: "transform_delivery_data 0 ?raw = [a, b, c]"
    by (simp add: transform_delivery_data_def Let_def three_validated)
  from quality_score_batch_level[OF ne h] s show ?thesis
    unfolding abc by simp
qed

end
